theory Spec2Isabelle
  imports Complex_Main "HOL-Library.AList"
begin

section \<open>Python values, enumerations and exceptions\<close>

text \<open>
  The orchestration engine of the repository lives in two files:
  \<^verbatim>\<open>src/agents/base_agent.py\<close> (class \<^verbatim>\<open>BaseAgent\<close>: the plan, execute, validate,
  report life cycle of one agent) and \<^verbatim>\<open>src/agents/orchestrator.py\<close> (class
  \<^verbatim>\<open>DevOpsOrchestrator\<close>: plan construction and phase execution). Both are embedded
  here function by function. Mutation of \<^verbatim>\<open>self\<close> is explicit state passing, a raised
  exception is the \<open>Inl\<close> branch of a sum, and every external input (the wrapped
  capability, \<^verbatim>\<open>time.time()\<close>, the file system) is an oracle stored in the state.
\<close>

datatype pyval =
    PNone
  | PBool bool
  | PInt int
  | PStr string
  | PList "pyval list"
  | PDict "(string \<times> pyval) list"

type_synonym pydict = "(string \<times> pyval) list"

text \<open>\<^verbatim>\<open>d.get(k)\<close> and \<^verbatim>\<open>d.get(k, default)\<close> on a dict of Python values.\<close>

definition py_get :: "pydict \<Rightarrow> string \<Rightarrow> pyval" where
  "py_get d k = (case map_of d k of None \<Rightarrow> PNone | Some v \<Rightarrow> v)"

definition py_get_default :: "pydict \<Rightarrow> string \<Rightarrow> pyval \<Rightarrow> pyval" where
  "py_get_default d k dflt = (case map_of d k of None \<Rightarrow> dflt | Some v \<Rightarrow> v)"

text \<open>Truthiness, as \<^verbatim>\<open>not x\<close> tests it.\<close>

fun py_truthy :: "pyval \<Rightarrow> bool" where
  "py_truthy PNone = False"
| "py_truthy (PBool b) = b"
| "py_truthy (PInt i) = (i \<noteq> 0)"
| "py_truthy (PStr s) = (s \<noteq> [])"
| "py_truthy (PList xs) = (xs \<noteq> [])"
| "py_truthy (PDict d) = (d \<noteq> [])"

datatype agent_status =
  IDLE | PLANNING | EXECUTING | VALIDATING | REPORTING | COMPLETED | FAILED | WAITING

datatype task_priority = CRITICAL | HIGH | MEDIUM | LOW

datatype deployment_phase =
    Phase_INITIALIZATION
  | Phase_INFRASTRUCTURE
  | Phase_SERVICES
  | Phase_CONFIGURATION
  | Phase_VALIDATION
  | Phase_REPORTING
  | Phase_COMPLETED
  | Phase_FAILED

fun phase_value :: "deployment_phase \<Rightarrow> string" where
  "phase_value Phase_INITIALIZATION = ''initialization''"
| "phase_value Phase_INFRASTRUCTURE = ''infrastructure''"
| "phase_value Phase_SERVICES = ''services''"
| "phase_value Phase_CONFIGURATION = ''configuration''"
| "phase_value Phase_VALIDATION = ''validation''"
| "phase_value Phase_REPORTING = ''reporting''"
| "phase_value Phase_COMPLETED = ''completed''"
| "phase_value Phase_FAILED = ''failed''"

datatype orchestration_strategy = SEQUENTIAL | PARALLEL | HYBRID | ADAPTIVE

text \<open>
  One constructor per \<^verbatim>\<open>raise\<close> site of the two files (and per built-in exception they
  can trigger). Where the source interpolates values into the message of an f-string, the
  constructor carries those values; \<^verbatim>\<open>str(e)\<close> of a caught exception is the value
  itself, so a wrapped message keeps the message it wraps.
\<close>

datatype error =
    CapabilityError string
      \<comment> \<open>any exception raised by \<^verbatim>\<open>execute_primary_function\<close>, with its message\<close>
  | NotImplementedError string
      \<comment> \<open>\<^verbatim>\<open>Custom function {function_name} not implemented\<close>\<close>
  | StepNotRecovered int error
      \<comment> \<open>\<^verbatim>\<open>Step {step_id} failed and could not be recovered: {e}\<close>\<close>
  | ValidationFailed "string list"
      \<comment> \<open>\<^verbatim>\<open>Validation failed: {errors}\<close>\<close>
  | ZeroDivisionError
      \<comment> \<open>\<^verbatim>\<open>300 / total_duration\<close> with a zero duration\<close>
  | MissingRequiredFields "string list"
      \<comment> \<open>\<^verbatim>\<open>ValueError: Missing required fields: {missing_fields}\<close>\<close>
  | TypeError string
      \<comment> \<open>\<^verbatim>\<open>len\<close> or \<^verbatim>\<open>in\<close> applied to a value that supports neither\<close>
  | MaxOfEmptySequence
      \<comment> \<open>\<^verbatim>\<open>ValueError\<close> of \<^verbatim>\<open>max\<close> on an empty generator\<close>
  | KeyError string
  | IOError string
      \<comment> \<open>\<^verbatim>\<open>open(path, 'w')\<close> failed\<close>
  | DependenciesNotMet string
      \<comment> \<open>\<^verbatim>\<open>Dependencies not met for task {id}\<close>\<close>
  | NoAgentFound string
      \<comment> \<open>\<^verbatim>\<open>No agent found for type {agent}\<close>\<close>
  | AgentNotFound string
      \<comment> \<open>\<^verbatim>\<open>Agent {agent_id} not found\<close>\<close>
  | TaskFailed string error
      \<comment> \<open>\<^verbatim>\<open>Task {id} failed: {error}\<close>\<close>
  | UnknownError
      \<comment> \<open>the default \<^verbatim>\<open>'Unknown error'\<close> of \<^verbatim>\<open>task_result.get('error', ...)\<close>\<close>
  | DeploymentFailedInPhase string error
      \<comment> \<open>\<^verbatim>\<open>Deployment failed in phase {phase.value}: {e}\<close>\<close>

section \<open>Data model of \<^verbatim>\<open>base_agent.py\<close>\<close>

text \<open>
  A task is a dict in the source. The keys the two files read are fields here. The key
  \<^verbatim>\<open>dependencies\<close> is only ever read as \<^verbatim>\<open>task.get('dependencies', [])\<close>, so a task
  without the key is the task with the empty list. Every task the orchestrator plans has
  the other keys; a dict without \<^verbatim>\<open>id\<close>, for which \<^verbatim>\<open>process_task\<close> would draw a
  fresh one, is not a value of this type.
\<close>

record task =
  task_id :: string
  agent :: string
  description :: string
  priority :: task_priority
  estimated_duration :: int
  parameters :: pydict
  dependencies :: "string list"

record step =
  step_id :: int
  step_description :: string
  step_function :: string
  step_parameters :: pydict
  step_validation :: string
  step_timeout :: int

text \<open>
  A rollback step. The source names it \<^verbatim>\<open>rollback_{step_id}\<close>; the field keeps the
  number.
\<close>

record rollback_step =
  rollback_of_step :: int
  rollback_description :: string
  rollback_function :: string
  rollback_parameters :: pydict

record execution_plan =
  plan_task_id :: string
  plan_agent_id :: string
  steps :: "step list"
  plan_dependencies :: "string list"
  plan_estimated_duration :: int
  risk_assessment :: string
  rollback_plan :: "rollback_step list"

text \<open>
  One entry of the list \<^verbatim>\<open>results\<close> of \<^verbatim>\<open>execute_with_monitoring\<close>. The keys
  \<^verbatim>\<open>result\<close>, \<^verbatim>\<open>error\<close> and \<^verbatim>\<open>recovered\<close> are present in some entries only.
\<close>

record step_result =
  sr_step_id :: int
  sr_success :: bool
  sr_result :: "pyval option"
  sr_error :: "error option"
  sr_duration :: rat
  sr_recovered :: "bool option"

record execution_result =
  plan_id :: string
  steps_executed :: nat
  steps_successful :: nat
  total_duration :: rat
  step_results :: "step_result list"

record validation =
  valid :: bool
  errors :: "string list"
  warnings :: "string list"
  checks_performed :: "string list"

text \<open>
  What \<^verbatim>\<open>perform_agent_validation\<close> returns: a dict that \<^verbatim>\<open>validate_execution\<close>
  merges into its own with \<^verbatim>\<open>dict.update\<close>. Each of the four keys may be present or
  not.
\<close>

record validation_update =
  upd_valid :: "bool option"
  upd_errors :: "string list option"
  upd_warnings :: "string list option"
  upd_checks_performed :: "string list option"

record performance_impact =
  execution_efficiency :: rat
  resource_usage :: string
  quality_score :: rat

record task_report =
  report_agent_id :: string
  report_agent_name :: string
  report_task_id :: string
  report_task_description :: string
  report_execution_time :: rat
  report_success :: bool
  report_steps_completed :: nat
  report_validation_results :: validation
  report_performance_impact :: performance_impact

record failure_analysis =
  error_category :: string
  likely_causes :: "string list"
  severity :: string
  impact_assessment :: string

record error_report =
  er_agent_id :: string
  er_task_id :: string
  er_error :: error
  er_failure_analysis :: failure_analysis
  er_recovery_suggestions :: "string list"

text \<open>
  The dict \<^verbatim>\<open>process_task\<close> returns (and the dict \<^verbatim>\<open>execute_parallel_phase\<close>
  stores for a gathered exception). A key that is absent is \<open>None\<close>.
\<close>

record task_result =
  success :: bool
  result :: "execution_result option"
  report :: "task_report option"
  error :: "error option"
  error_report :: "error_report option"
  execution_time :: "rat option"

record metrics =
  tasks_completed :: nat
  tasks_failed :: nat
  total_execution_time :: rat
  average_task_time :: rat
  success_rate :: rat

datatype log_entry =
    TaskPlanningCompleted execution_plan
  | StepCompleted int pyval

text \<open>
  The two events \<^verbatim>\<open>process_task\<close> sends to \<^verbatim>\<open>orchestrator_callback\<close>, with the
  fields of the payload the orchestrator's handlers read.
\<close>

datatype agent_event =
    Task_completed string string
  | Task_failed string string error

text \<open>
  The state of one \<^verbatim>\<open>BaseAgent\<close>. The abstract method
  \<^verbatim>\<open>execute_primary_function\<close> is the oracle \<open>capability\<close>: the outcome of its
  \<open>k\<close>-th invocation on the given parameters, \<open>Inl\<close> when it raises an
  \<^verbatim>\<open>Exception\<close> (what \<^verbatim>\<open>except Exception\<close> does not catch, an interrupt or a
  cancellation, is outside the model); \<open>calls\<close> counts the invocations made so far. \<open>time_source\<close> is the \<open>k\<close>-th reading of
  \<^verbatim>\<open>time.time()\<close> (floats are taken as rationals), \<open>sleeps\<close> the arguments of the
  \<^verbatim>\<open>asyncio.sleep\<close> calls made. \<open>perform_agent_validation\<close> is the overridable
  hook of that name. \<open>orchestrator_callback\<close> tells whether a callback is set.
\<close>

record base_agent =
  agent_id :: string
  name :: string
  agent_type :: "string option"
  status :: agent_status
  orchestrator_callback :: bool
  current_task :: "task option"
  completed_tasks :: "task list"
  failed_tasks :: "task list"
  execution_log :: "log_entry list"
  performance_metrics :: metrics
  capability :: "nat \<Rightarrow> pydict \<Rightarrow> error + pyval"
  calls :: nat
  time_source :: "nat \<Rightarrow> rat"
  time_reads :: nat
  sleeps :: "nat list"
  perform_agent_validation :: "execution_result \<Rightarrow> validation_update"

section \<open>\<^verbatim>\<open>BaseAgent\<close>: planning\<close>

definition read_time :: "base_agent \<Rightarrow> rat \<times> base_agent" where
  "read_time ag = (time_source ag (time_reads ag), ag\<lparr>time_reads := Suc (time_reads ag)\<rparr>)"

definition log_execution_step :: "base_agent \<Rightarrow> log_entry \<Rightarrow> base_agent" where
  "log_execution_step ag entry = ag\<lparr>execution_log := execution_log ag @ [entry]\<rparr>"

definition generate_execution_steps :: "base_agent \<Rightarrow> task \<Rightarrow> step list" where
  "generate_execution_steps ag t =
     [\<lparr>step_id = 1,
       step_description = ''Execute '' @ name ag @ '' primary function'',
       step_function = ''execute_primary_function'',
       step_parameters = parameters t,
       step_validation = ''Validate '' @ name ag @ '' execution'',
       step_timeout = 300\<rparr>]"

definition assess_task_risk :: "task \<Rightarrow> string" where
  "assess_task_risk t =
     (let complexity = length (parameters t);
          deps = length (dependencies t)
      in if complexity > 10 \<or> deps > 5 then ''high''
         else if complexity > 5 \<or> deps > 2 then ''medium''
         else ''low'')"

definition create_rollback_plan :: "step list \<Rightarrow> rollback_step list" where
  "create_rollback_plan ss =
     map (\<lambda>s. \<lparr>rollback_of_step = step_id s,
               rollback_description = ''Rollback '' @ step_description s,
               rollback_function = ''rollback_'' @ step_function s,
               rollback_parameters = step_parameters s\<rparr>) (rev ss)"

definition create_execution_plan :: "base_agent \<Rightarrow> task \<Rightarrow> execution_plan" where
  "create_execution_plan ag t =
     (let ss = generate_execution_steps ag t
      in \<lparr>plan_task_id = task_id t,
          plan_agent_id = agent_id ag,
          steps = ss,
          plan_dependencies = dependencies t,
          plan_estimated_duration = int (length ss) * 30,
          risk_assessment = assess_task_risk t,
          rollback_plan = create_rollback_plan ss\<rparr>)"

section \<open>\<^verbatim>\<open>BaseAgent\<close>: execution with monitoring and recovery\<close>

definition execute_primary_function ::
  "base_agent \<Rightarrow> pydict \<Rightarrow> (error + pyval) \<times> base_agent" where
  "execute_primary_function ag ps =
     (capability ag (calls ag) ps, ag\<lparr>calls := Suc (calls ag)\<rparr>)"

definition execute_custom_function ::
  "base_agent \<Rightarrow> string \<Rightarrow> pydict \<Rightarrow> (error + pyval) \<times> base_agent" where
  "execute_custom_function ag function_name ps = (Inl (NotImplementedError function_name), ag)"

text \<open>The dispatch on \<^verbatim>\<open>step['function']\<close> that the loop and the recovery share.\<close>

definition run_step :: "base_agent \<Rightarrow> step \<Rightarrow> (error + pyval) \<times> base_agent" where
  "run_step ag s =
     (if step_function s = ''execute_primary_function''
      then execute_primary_function ag (step_parameters s)
      else execute_custom_function ag (step_function s) (step_parameters s))"

record recovery_result =
  recovered :: bool
  recovery_value :: "pyval option"
  recovery_error :: "error option"
  recovery_method :: string

definition attempt_step_recovery ::
  "base_agent \<Rightarrow> step \<Rightarrow> error \<Rightarrow> recovery_result \<times> base_agent" where
  "attempt_step_recovery ag s e =
     (let ag1 = ag\<lparr>sleeps := sleeps ag @ [5]\<rparr>;
          (outcome, ag2) = run_step ag1 s
      in case outcome of
           Inr v \<Rightarrow>
             (\<lparr>recovered = True, recovery_value = Some v, recovery_error = None,
               recovery_method = ''retry_after_delay''\<rparr>, ag2)
         | Inl e' \<Rightarrow>
             (\<lparr>recovered = False, recovery_value = None, recovery_error = Some e',
               recovery_method = ''retry_after_delay''\<rparr>, ag2))"

text \<open>
  The \<^verbatim>\<open>for step in plan['steps']\<close> loop of \<^verbatim>\<open>execute_with_monitoring\<close>, with the
  list \<^verbatim>\<open>results\<close> as accumulator. The raise in the unrecovered branch leaves the loop.
\<close>

fun monitor_steps ::
  "base_agent \<Rightarrow> step list \<Rightarrow> step_result list \<Rightarrow> (error + step_result list) \<times> base_agent" where
  "monitor_steps ag [] results = (Inr results, ag)"
| "monitor_steps ag (s # ss) results =
     (let (step_start, ag1) = read_time ag;
          (outcome, ag2) = run_step ag1 s;
          (step_end, ag3) = read_time ag2;
          step_duration = step_end - step_start
      in case outcome of
           Inr v \<Rightarrow>
             monitor_steps (log_execution_step ag3 (StepCompleted (step_id s) v)) ss
               (results @ [\<lparr>sr_step_id = step_id s, sr_success = True, sr_result = Some v,
                             sr_error = None, sr_duration = step_duration,
                             sr_recovered = None\<rparr>])
         | Inl e \<Rightarrow>
             (let (recovery, ag4) = attempt_step_recovery ag3 s e
              in if recovered recovery
                 then monitor_steps ag4 ss
                        (results @ [\<lparr>sr_step_id = step_id s, sr_success = True,
                                      sr_result = recovery_value recovery, sr_error = None,
                                      sr_duration = step_duration,
                                      sr_recovered = Some True\<rparr>])
                 else (Inl (StepNotRecovered (step_id s) e), ag4)))"

definition execute_with_monitoring ::
  "base_agent \<Rightarrow> execution_plan \<Rightarrow> (error + execution_result) \<times> base_agent" where
  "execute_with_monitoring ag plan =
     (case monitor_steps ag (steps plan) [] of
        (Inl e, ag') \<Rightarrow> (Inl e, ag')
      | (Inr results, ag') \<Rightarrow>
          (Inr \<lparr>plan_id = plan_task_id plan,
                steps_executed = length results,
                steps_successful = length (filter sr_success results),
                total_duration = sum_list (map sr_duration results),
                step_results = results\<rparr>, ag'))"

section \<open>\<^verbatim>\<open>BaseAgent\<close>: validation, reporting, metrics\<close>

definition base_perform_agent_validation :: "execution_result \<Rightarrow> validation_update" where
  "base_perform_agent_validation r =
     \<lparr>upd_valid = None, upd_errors = Some [], upd_warnings = Some [],
      upd_checks_performed = Some [''basic_validation'']\<rparr>"

text \<open>\<^verbatim>\<open>validation.update(agent_validation)\<close>: every key of the argument replaces the
  value stored under it.\<close>

definition dict_update :: "validation \<Rightarrow> validation_update \<Rightarrow> validation" where
  "dict_update v u =
     \<lparr>valid = (case upd_valid u of None \<Rightarrow> valid v | Some b \<Rightarrow> b),
      errors = (case upd_errors u of None \<Rightarrow> errors v | Some es \<Rightarrow> es),
      warnings = (case upd_warnings u of None \<Rightarrow> warnings v | Some ws \<Rightarrow> ws),
      checks_performed =
        (case upd_checks_performed u of None \<Rightarrow> checks_performed v | Some cs \<Rightarrow> cs)\<rparr>"

definition validate_execution ::
  "(execution_result \<Rightarrow> validation_update) \<Rightarrow> execution_result \<Rightarrow> validation" where
  "validate_execution hook r =
     (let validation0 = \<lparr>valid = True, errors = [], warnings = [], checks_performed = []\<rparr>;
          validation1 =
            (if steps_successful r = 0
             then validation0\<lparr>valid := False,
                    errors := errors validation0 @ [''No steps were executed successfully'']\<rparr>
             else validation0)
      in dict_update validation1 (hook r))"

definition calculate_performance_impact :: "execution_result \<Rightarrow> error + performance_impact" where
  "calculate_performance_impact r =
     (if total_duration r = 0 then Inl ZeroDivisionError
      else Inr \<lparr>execution_efficiency = min 1 (300 / total_duration r),
                resource_usage = ''normal'',
                quality_score = (if steps_successful r > 0 then 1 else 0)\<rparr>)"

definition generate_task_report ::
  "base_agent \<Rightarrow> task \<Rightarrow> execution_result \<Rightarrow> validation \<Rightarrow> error + task_report" where
  "generate_task_report ag t r v =
     (case calculate_performance_impact r of
        Inl e \<Rightarrow> Inl e
      | Inr impact \<Rightarrow>
          Inr \<lparr>report_agent_id = agent_id ag,
                report_agent_name = name ag,
                report_task_id = task_id t,
                report_task_description = description t,
                report_execution_time = total_duration r,
                report_success = valid v,
                report_steps_completed = steps_successful r,
                report_validation_results = v,
                report_performance_impact = impact\<rparr>)"

definition analyze_failure :: "error \<Rightarrow> failure_analysis" where
  "analyze_failure e =
     \<lparr>error_category = ''execution_error'',
      likely_causes = [''configuration_issue'', ''network_timeout'', ''permission_error''],
      severity = ''medium'',
      impact_assessment = ''task_specific''\<rparr>"

definition suggest_recovery_actions :: "error \<Rightarrow> string list" where
  "suggest_recovery_actions e =
     [''Retry with increased timeout'', ''Verify configuration parameters'',
      ''Check network connectivity'', ''Validate permissions'']"

definition handle_task_failure :: "base_agent \<Rightarrow> task \<Rightarrow> error \<Rightarrow> error_report" where
  "handle_task_failure ag t e =
     \<lparr>er_agent_id = agent_id ag,
      er_task_id = task_id t,
      er_error = e,
      er_failure_analysis = analyze_failure e,
      er_recovery_suggestions = suggest_recovery_actions e\<rparr>"

definition update_performance_metrics :: "metrics \<Rightarrow> bool \<Rightarrow> rat \<Rightarrow> metrics" where
  "update_performance_metrics m succeeded t =
     (let m1 = (if succeeded then m\<lparr>tasks_completed := tasks_completed m + 1\<rparr>
                else m\<lparr>tasks_failed := tasks_failed m + 1\<rparr>);
          m2 = m1\<lparr>total_execution_time := total_execution_time m1 + t\<rparr>;
          total_tasks = tasks_completed m2 + tasks_failed m2
      in if total_tasks > 0
         then m2\<lparr>average_task_time := total_execution_time m2 / of_nat total_tasks,
                 success_rate := of_nat (tasks_completed m2) / of_nat total_tasks\<rparr>
         else m2)"

section \<open>\<^verbatim>\<open>BaseAgent.process_task\<close>\<close>

text \<open>
  Steps 1 to 4 of the \<^verbatim>\<open>try\<close> block: everything in it that can raise. \<open>Inl\<close> is the
  exception that reaches the \<^verbatim>\<open>except Exception\<close> clause, together with the state the
  agent is in at that moment.
\<close>

definition process_task_attempt ::
  "base_agent \<Rightarrow> task \<Rightarrow> (error + execution_result \<times> task_report) \<times> base_agent" where
  "process_task_attempt ag t =
     (let ag1 = ag\<lparr>status := PLANNING\<rparr>;
          plan = create_execution_plan ag1 t;
          ag2 = log_execution_step ag1 (TaskPlanningCompleted plan);
          ag3 = ag2\<lparr>status := EXECUTING\<rparr>;
          (executed, ag4) = execute_with_monitoring ag3 plan
      in case executed of
           Inl e \<Rightarrow> (Inl e, ag4)
         | Inr r \<Rightarrow>
             (let ag5 = ag4\<lparr>status := VALIDATING\<rparr>;
                  validation_result = validate_execution (perform_agent_validation ag5) r
              in if \<not> valid validation_result
                 then (Inl (ValidationFailed (errors validation_result)), ag5)
                 else (let ag6 = ag5\<lparr>status := REPORTING\<rparr>
                       in case generate_task_report ag6 t r validation_result of
                            Inl e \<Rightarrow> (Inl e, ag6)
                          | Inr rep \<Rightarrow> (Inr (r, rep), ag6))))"

text \<open>The \<^verbatim>\<open>finally\<close> clause.\<close>

definition process_task_finally :: "base_agent \<Rightarrow> base_agent" where
  "process_task_finally ag =
     (let ag1 = ag\<lparr>current_task := None\<rparr>
      in if status ag1 \<noteq> FAILED then ag1\<lparr>status := IDLE\<rparr> else ag1)"

text \<open>
  \<^verbatim>\<open>process_task\<close>: the returned dict, the agent afterwards, and the events handed to
  the orchestrator callback, in order. The callback of this repository
  (\<^verbatim>\<open>DevOpsOrchestrator.handle_agent_callback\<close>) does not raise on either event and does
  not touch the agent, so it is applied by the caller to the events returned here.
\<close>

definition process_task ::
  "base_agent \<Rightarrow> task \<Rightarrow> task_result \<times> base_agent \<times> agent_event list" where
  "process_task ag t =
     (let ag0 = ag\<lparr>current_task := Some t\<rparr>;
          (start_time, ag1) = read_time ag0;
          (attempt, ag2) = process_task_attempt ag1 t;
          (end_time, ag3) = read_time ag2;
          elapsed = end_time - start_time
      in case attempt of
           Inr (r, rep) \<Rightarrow>
             (let ag4 = ag3\<lparr>performance_metrics :=
                           update_performance_metrics (performance_metrics ag3) True elapsed\<rparr>;
                  ag5 = ag4\<lparr>status := COMPLETED, completed_tasks := completed_tasks ag4 @ [t]\<rparr>
              in (\<lparr>success = True, result = Some r, report = Some rep, error = None,
                   error_report = None, execution_time = Some elapsed\<rparr>,
                  process_task_finally ag5,
                  if orchestrator_callback ag5
                  then [Task_completed (agent_id ag5) (task_id t)] else []))
         | Inl e \<Rightarrow>
             (let ag4 = ag3\<lparr>performance_metrics :=
                           update_performance_metrics (performance_metrics ag3) False elapsed\<rparr>;
                  ag5 = ag4\<lparr>status := FAILED, failed_tasks := failed_tasks ag4 @ [t]\<rparr>;
                  err_report = handle_task_failure ag5 t e
              in (\<lparr>success = False, result = None, report = None, error = Some e,
                   error_report = Some err_report, execution_time = Some elapsed\<rparr>,
                  process_task_finally ag5,
                  if orchestrator_callback ag5
                  then [Task_failed (agent_id ag5) (task_id t) e] else [])))"

text \<open>Running one agent over a list of tasks, one \<^verbatim>\<open>process_task\<close> call after the
  other; the returned dicts are collected in call order.\<close>

fun process_tasks :: "base_agent \<Rightarrow> task list \<Rightarrow> task_result list \<times> base_agent" where
  "process_tasks ag [] = ([], ag)"
| "process_tasks ag (t # ts) =
     (let (r, ag', evs) = process_task ag t;
          (rs, ag'') = process_tasks ag' ts
      in (r # rs, ag''))"

text \<open>The metrics dict of a freshly constructed agent.\<close>

definition initial_metrics :: metrics where
  "initial_metrics =
     \<lparr>tasks_completed = 0, tasks_failed = 0, total_execution_time = 0,
      average_task_time = 0, success_rate = 0\<rparr>"

section \<open>Data model of \<^verbatim>\<open>orchestrator.py\<close>\<close>

record phase_config =
  phase :: deployment_phase
  phase_description :: string
  tasks :: "task list"
  parallel_execution :: bool

record master_plan =
  plan_deployment_id :: pyval
  strategy :: orchestration_strategy
  phases :: "phase_config list"
  plan_dependency_map :: "(string \<times> string list) list"
  plan_total_estimated_duration :: int
  parallel_groups :: "string list list"

text \<open>
  The dict a phase returns. \<open>pr_task_results\<close> is the insertion-ordered dict
  \<^verbatim>\<open>results\<close>, keyed by task id.
\<close>

record phase_result =
  pr_phase :: string
  pr_parallel_execution :: bool
  pr_task_results :: "(string \<times> task_result) list"
  pr_success :: bool

record deployment =
  dep_id :: string
  dep_request :: pydict
  dep_phase :: deployment_phase
  dep_client_data :: pydict
  dep_task_results :: "(string \<times> phase_result) list"
  dep_status :: string
  dep_execution_plan :: "master_plan option"

record orchestrator_metrics =
  total_deployments :: nat
  successful_deployments :: nat
  failed_deployments :: nat
  average_deployment_time :: rat
  deployment_success_rate :: rat

text \<open>The messages the orchestrator writes to its logger, in the order written.\<close>

datatype orchestrator_log =
    Log_registered_agent string string
  | Log_starting_deployment string
  | Log_created_client_data_file string
  | Log_starting_phase string
  | Log_phase_completed string
  | Log_phase_failed string error
  | Log_assigning_task string string
  | Log_task_completed string string
  | Log_task_failed string string error
  | Log_task_recovery_needed string string error
  | Log_deployment_completed string
  | Log_deployment_failed string error

text \<open>
  The state of the \<^verbatim>\<open>DevOpsOrchestrator\<close>. \<open>agents\<close> is the registry dict in
  registration order (the order \<^verbatim>\<open>find_agent_by_type\<close> iterates in).
  \<open>fs_writable\<close> tells for a path whether \<^verbatim>\<open>open(path, 'w')\<close> succeeds;
  \<open>orch_time_source\<close> is the orchestrator's reading of \<^verbatim>\<open>time.time()\<close>.
\<close>

record orchestrator =
  agents :: "(string \<times> base_agent) list"
  agent_status :: "(string \<times> agent_status) list"
  active_deployments :: "(string \<times> deployment) list"
  current_phase :: deployment_phase
  orchestrator_metrics :: orchestrator_metrics
  orchestrator_log :: "orchestrator_log list"
  fs_writable :: "string \<Rightarrow> bool"
  files_written :: "string list"
  orch_time_source :: "nat \<Rightarrow> rat"
  orch_time_reads :: nat

record final_report =
  fr_deployment_id :: string
  fr_client_data :: pydict
  fr_phases_completed :: nat
  fr_success :: bool
  fr_phase_results :: "(string \<times> phase_result) list"
  fr_agent_reports :: "(string \<times> task_report) list"

record failure_report =
  failure_deployment_id :: string
  failure_error :: error
  phase_at_failure :: string
  completed_phases :: "string list"
  failure_agent_status :: "(string \<times> agent_status) list"
  recovery_suggestions :: "string list"
  failure_rollback_plan :: "string list"

text \<open>The dict \<^verbatim>\<open>deploy_infrastructure\<close> returns; an absent key is \<open>None\<close>.\<close>

record deployment_result =
  dr_deployment_id :: string
  dr_success :: bool
  dr_execution_time :: rat
  dr_result :: "(string \<times> phase_result) list option"
  dr_final_report :: "final_report option"
  dr_error :: "error option"
  dr_error_report :: "failure_report option"

definition log_info :: "orchestrator \<Rightarrow> orchestrator_log \<Rightarrow> orchestrator" where
  "log_info orch msg = orch\<lparr>orchestrator_log := orchestrator_log orch @ [msg]\<rparr>"

definition orch_read_time :: "orchestrator \<Rightarrow> rat \<times> orchestrator" where
  "orch_read_time orch =
     (orch_time_source orch (orch_time_reads orch),
      orch\<lparr>orch_time_reads := Suc (orch_time_reads orch)\<rparr>)"

definition register_agent :: "orchestrator \<Rightarrow> base_agent \<Rightarrow> orchestrator" where
  "register_agent orch ag =
     log_info
       (orch\<lparr>agents := AList.update (agent_id ag) (ag\<lparr>orchestrator_callback := True\<rparr>)
                          (agents orch),
             agent_status := AList.update (agent_id ag) IDLE (agent_status orch)\<rparr>)
       (Log_registered_agent (name ag) (agent_id ag))"

section \<open>Request validation\<close>

text \<open>A deployment request is a dict; \<^verbatim>\<open>request.get\<close> reads it.\<close>

definition process_client_data :: "pydict \<Rightarrow> error + pydict" where
  "process_client_data request =
     (let client_data =
            [(''domain'', py_get request ''domain''),
             (''email'', py_get request ''email''),
             (''project_name'', py_get request ''project_name''),
             (''client_name'', py_get request ''client_name''),
             (''server_ip'', py_get request ''server_ip''),
             (''ssh_credentials'', py_get_default request ''ssh_credentials'' (PDict [])),
             (''cloudflare_token'', py_get request ''cloudflare_token''),
             (''services'',
                py_get_default request ''services'' (PList [PStr ''n8n'', PStr ''supabase''])),
             (''configuration'', py_get_default request ''configuration'' (PDict []))];
          required_fields = [''domain'', ''email'', ''project_name'', ''server_ip''];
          missing_fields = filter (\<lambda>field. \<not> py_truthy (py_get client_data field)) required_fields
      in if missing_fields \<noteq> [] then Inl (MissingRequiredFields missing_fields)
         else Inr client_data)"

definition create_client_data_file ::
  "orchestrator \<Rightarrow> string \<Rightarrow> pydict \<Rightarrow> (error + unit) \<times> orchestrator" where
  "create_client_data_file orch deployment_id client_data =
     (let file_path = ''reports/client_data_'' @ deployment_id @ ''.json''
      in if fs_writable orch file_path
         then (Inr (),
               log_info (orch\<lparr>files_written := files_written orch @ [file_path]\<rparr>)
                 (Log_created_client_data_file file_path))
         else (Inl (IOError file_path), orch))"

definition initialize_deployment ::
  "orchestrator \<Rightarrow> string \<Rightarrow> pydict \<Rightarrow> (error + deployment) \<times> orchestrator" where
  "initialize_deployment orch deployment_id request =
     (case process_client_data request of
        Inl e \<Rightarrow> (Inl e, orch)
      | Inr client_data \<Rightarrow>
          (let d = \<lparr>dep_id = deployment_id, dep_request = request,
                    dep_phase = Phase_INITIALIZATION, dep_client_data = client_data,
                    dep_task_results = [], dep_status = ''initializing'',
                    dep_execution_plan = None\<rparr>
           in case create_client_data_file orch deployment_id client_data of
                (Inl e, orch') \<Rightarrow> (Inl e, orch')
              | (Inr u, orch') \<Rightarrow> (Inr d, orch')))"

section \<open>Plan construction\<close>

text \<open>\<^verbatim>\<open>len(x)\<close> and \<^verbatim>\<open>'name' in x\<close> on a Python value; both raise
  \<^verbatim>\<open>TypeError\<close> on a value without length or membership.\<close>

fun py_len :: "pyval \<Rightarrow> error + nat" where
  "py_len (PStr s) = Inr (length s)"
| "py_len (PList xs) = Inr (length xs)"
| "py_len (PDict d) = Inr (length d)"
| "py_len v = Inl (TypeError ''len'')"

fun starts_with :: "string \<Rightarrow> string \<Rightarrow> bool" where
  "starts_with [] s = True"
| "starts_with (c # cs) [] = False"
| "starts_with (c # cs) (d # ds) = (c = d \<and> starts_with cs ds)"

text \<open>\<^verbatim>\<open>sub in s\<close> on strings.\<close>

fun contains_str :: "string \<Rightarrow> string \<Rightarrow> bool" where
  "contains_str sub [] = (sub = [])"
| "contains_str sub (c # cs) = (starts_with sub (c # cs) \<or> contains_str sub cs)"

fun py_contains :: "string \<Rightarrow> pyval \<Rightarrow> error + bool" where
  "py_contains x (PStr s) = Inr (contains_str x s)"
| "py_contains x (PList xs) = Inr (PStr x \<in> set xs)"
| "py_contains x (PDict d) = Inr (x \<in> set (map fst d))"
| "py_contains x v = Inl (TypeError ''in'')"

definition determine_optimal_strategy :: "pydict \<Rightarrow> error + orchestration_strategy" where
  "determine_optimal_strategy request =
     (case py_len (py_get_default request ''services'' (PList [])) of
        Inl e \<Rightarrow> Inl e
      | Inr service_count \<Rightarrow>
          (case py_len (py_get_default request ''configuration'' (PDict [])) of
             Inl e \<Rightarrow> Inl e
           | Inr n \<Rightarrow>
               (let complexity_score = service_count + n
                in if complexity_score > 10 then Inr ADAPTIVE
                   else if complexity_score > 5 then Inr HYBRID
                   else Inr PARALLEL)))"

definition plan_infrastructure_phase :: "pydict \<Rightarrow> phase_config" where
  "plan_infrastructure_phase request =
     \<lparr>phase = Phase_INFRASTRUCTURE,
      phase_description = ''Setup base server infrastructure'',
      tasks =
        [\<lparr>task_id = ''base_server_setup'', agent = ''server_setup_agent'',
          description = ''Setup Docker, Portainer, and Nginx Proxy Manager'',
          priority = CRITICAL, estimated_duration = 300,
          parameters =
            [(''server_ip'', py_get request ''server_ip''),
             (''ssh_credentials'', py_get request ''ssh_credentials''),
             (''install_docker'', PBool True),
             (''install_portainer'', PBool True),
             (''install_nginx_proxy'', PBool True)],
          dependencies = []\<rparr>],
      parallel_execution = False\<rparr>"

text \<open>The task dicts of the Services and Configuration phases, one definition per dict
  literal of the source.\<close>

definition n8n_task :: "pydict \<Rightarrow> task" where
  "n8n_task request =
     \<lparr>task_id = ''n8n_deployment'', agent = ''n8n_agent'',
      description = ''Deploy N8N workflow automation platform'',
      priority = HIGH, estimated_duration = 600,
      parameters =
        [(''domain'', py_get request ''domain''),
         (''email'', py_get request ''email''),
         (''database_type'', PStr ''postgres''),
         (''async_execution'', PBool True)],
      dependencies = []\<rparr>"

definition supabase_task :: "pydict \<Rightarrow> task" where
  "supabase_task request =
     \<lparr>task_id = ''supabase_deployment'', agent = ''supabase_agent'',
      description = ''Deploy Supabase backend platform'',
      priority = HIGH, estimated_duration = 600,
      parameters =
        [(''domain'', py_get request ''domain''),
         (''email'', py_get request ''email''),
         (''generate_keys'', PBool True),
         (''async_execution'', PBool True)],
      dependencies = []\<rparr>"

definition plan_services_phase :: "pydict \<Rightarrow> error + phase_config" where
  "plan_services_phase request =
     (case py_contains ''n8n'' (py_get_default request ''services'' (PList [])) of
        Inl e \<Rightarrow> Inl e
      | Inr has_n8n \<Rightarrow>
          (let tasks1 = (if has_n8n then [n8n_task request] else [])
           in case py_contains ''supabase'' (py_get_default request ''services'' (PList [])) of
                Inl e \<Rightarrow> Inl e
              | Inr has_supabase \<Rightarrow>
                  (let tasks2 = (if has_supabase then tasks1 @ [supabase_task request]
                                 else tasks1)
                   in Inr \<lparr>phase = Phase_SERVICES,
                           phase_description = ''Deploy core services in parallel'',
                           tasks = tasks2,
                           parallel_execution = True\<rparr>)))"

definition dns_task :: "pydict \<Rightarrow> task" where
  "dns_task request =
     \<lparr>task_id = ''dns_configuration'', agent = ''dns_agent'',
      description = ''Create DNS records and subdomains'',
      priority = HIGH, estimated_duration = 180,
      parameters =
        [(''domain'', py_get request ''domain''),
         (''server_ip'', py_get request ''server_ip''),
         (''cloudflare_token'', py_get request ''cloudflare_token''),
         (''services'', py_get_default request ''services'' (PList []))],
      dependencies = []\<rparr>"

definition proxy_task :: "pydict \<Rightarrow> task" where
  "proxy_task request =
     \<lparr>task_id = ''proxy_configuration'', agent = ''proxy_agent'',
      description = ''Configure Nginx proxy hosts and SSL'',
      priority = HIGH, estimated_duration = 240,
      parameters =
        [(''domain'', py_get request ''domain''),
         (''services'', py_get_default request ''services'' (PList [])),
         (''ssl_enabled'', PBool True)],
      dependencies = [''dns_configuration'']\<rparr>"

definition plan_configuration_phase :: "pydict \<Rightarrow> phase_config" where
  "plan_configuration_phase request =
     \<lparr>phase = Phase_CONFIGURATION,
      phase_description = ''Configure DNS and proxy settings'',
      tasks = [dns_task request, proxy_task request],
      parallel_execution = False\<rparr>"

definition plan_validation_phase :: "pydict \<Rightarrow> phase_config" where
  "plan_validation_phase request =
     \<lparr>phase = Phase_VALIDATION,
      phase_description = ''Validate all services and configurations'',
      tasks =
        [\<lparr>task_id = ''system_validation'', agent = ''validator_agent'',
          description = ''Comprehensive system validation'',
          priority = CRITICAL, estimated_duration = 300,
          parameters =
            [(''services'', py_get_default request ''services'' (PList [])),
             (''domain'', py_get request ''domain''),
             (''validate_ssl'', PBool True),
             (''validate_dns'', PBool True),
             (''validate_services'', PBool True)],
          dependencies = []\<rparr>],
      parallel_execution = False\<rparr>"

definition plan_reporting_phase :: "pydict \<Rightarrow> phase_config" where
  "plan_reporting_phase request =
     \<lparr>phase = Phase_REPORTING,
      phase_description = ''Generate comprehensive deployment report'',
      tasks =
        [\<lparr>task_id = ''final_report'', agent = ''reporter_agent'',
          description = ''Create final client report'',
          priority = MEDIUM, estimated_duration = 120,
          parameters =
            [(''client_data'', PDict request),
             (''include_credentials'', PBool True),
             (''include_maintenance_guide'', PBool True),
             (''format'', PStr ''markdown'')],
          dependencies = []\<rparr>],
      parallel_execution = False\<rparr>"

definition calculate_task_dependencies ::
  "phase_config list \<Rightarrow> (string \<times> string list) list" where
  "calculate_task_dependencies ps =
     fold (\<lambda>t deps. AList.update (task_id t) (dependencies t) deps) (concat (map tasks ps)) []"

definition identify_parallel_groups :: "phase_config list \<Rightarrow> string list list" where
  "identify_parallel_groups ps =
     map (\<lambda>p. map task_id (tasks p)) (filter parallel_execution ps)"

text \<open>\<^verbatim>\<open>max(...)\<close> over a generator: \<^verbatim>\<open>ValueError\<close> when it yields nothing.\<close>

definition py_max :: "int list \<Rightarrow> error + int" where
  "py_max xs = (case xs of [] \<Rightarrow> Inl MaxOfEmptySequence | y # ys \<Rightarrow> Inr (fold max ys y))"

text \<open>The loop of \<^verbatim>\<open>estimate_total_duration\<close>, with \<^verbatim>\<open>total_duration\<close> as
  the accumulator \<open>tot\<close>.\<close>

fun estimate_phases :: "phase_config list \<Rightarrow> int \<Rightarrow> error + int" where
  "estimate_phases [] tot = Inr tot"
| "estimate_phases (p # ps) tot =
     (if parallel_execution p
      then (case py_max (map estimated_duration (tasks p)) of
              Inl e \<Rightarrow> Inl e
            | Inr phase_duration \<Rightarrow> estimate_phases ps (tot + phase_duration))
      else estimate_phases ps (tot + sum_list (map estimated_duration (tasks p))))"

definition estimate_total_duration :: "phase_config list \<Rightarrow> error + int" where
  "estimate_total_duration ps = estimate_phases ps 0"

definition create_master_execution_plan :: "pydict \<Rightarrow> error + master_plan" where
  "create_master_execution_plan request =
     (case determine_optimal_strategy request of
        Inl e \<Rightarrow> Inl e
      | Inr strat \<Rightarrow>
          (let infrastructure_phase = plan_infrastructure_phase request
           in case plan_services_phase request of
                Inl e \<Rightarrow> Inl e
              | Inr services_phase \<Rightarrow>
                  (let config_phase = plan_configuration_phase request;
                       validation_phase = plan_validation_phase request;
                       reporting_phase = plan_reporting_phase request;
                       all_phases = [infrastructure_phase, services_phase, config_phase,
                                     validation_phase, reporting_phase]
                   in case estimate_total_duration all_phases of
                        Inl e \<Rightarrow> Inl e
                      | Inr duration \<Rightarrow>
                          Inr \<lparr>plan_deployment_id = py_get request ''deployment_id'',
                                strategy = strat,
                                phases = all_phases,
                                plan_dependency_map = calculate_task_dependencies all_phases,
                                plan_total_estimated_duration = duration,
                                parallel_groups = identify_parallel_groups all_phases\<rparr>)))"

section \<open>Agent resolution and task dispatch\<close>

text \<open>\<^verbatim>\<open>str.lower()\<close> on the ASCII letters.\<close>

definition lower_char :: "char \<Rightarrow> char" where
  "lower_char c =
     (let n = (of_char c :: nat) in if 65 \<le> n \<and> n \<le> 90 then char_of (n + 32) else c)"

definition lower :: "string \<Rightarrow> string" where
  "lower s = map lower_char s"

definition type_mapping :: "(string \<times> string) list" where
  "type_mapping =
     [(''server_setup_agent'', ''server_setup''),
      (''n8n_agent'', ''n8n_deployment''),
      (''supabase_agent'', ''supabase_deployment''),
      (''dns_agent'', ''dns_manager''),
      (''proxy_agent'', ''proxy_configurator''),
      (''validator_agent'', ''system_validator''),
      (''reporter_agent'', ''final_reporter'')]"

definition find_agent_by_type :: "orchestrator \<Rightarrow> string \<Rightarrow> string option" where
  "find_agent_by_type orch atype =
     (let target_type = (case map_of type_mapping atype of None \<Rightarrow> atype | Some m \<Rightarrow> m)
      in case find (\<lambda>(aid, ag). agent_type ag = Some target_type
                                \<or> contains_str target_type (lower (name ag)))
                   (agents orch) of
           None \<Rightarrow> None
         | Some (aid, ag) \<Rightarrow> Some aid)"

text \<open>
  \<^verbatim>\<open>agent_id = self.find_agent_by_type(...)\<close> followed by the test \<^verbatim>\<open>if agent_id:\<close>
  (or \<^verbatim>\<open>if not agent_id:\<close>): \<^verbatim>\<open>None\<close> and the empty string are both false.
\<close>

definition resolve_agent :: "orchestrator \<Rightarrow> string \<Rightarrow> string option" where
  "resolve_agent orch atype =
     (case find_agent_by_type orch atype of
        None \<Rightarrow> None
      | Some aid \<Rightarrow> if aid \<noteq> [] then Some aid else None)"

definition check_task_dependencies :: "task \<Rightarrow> (string \<times> task_result) list \<Rightarrow> bool" where
  "check_task_dependencies t completed =
     list_all (\<lambda>dep. case map_of completed dep of None \<Rightarrow> False | Some r \<Rightarrow> success r)
       (dependencies t)"

definition set_agent_status :: "orchestrator \<Rightarrow> string \<Rightarrow> agent_status \<Rightarrow> orchestrator" where
  "set_agent_status orch aid st = orch\<lparr>agent_status := AList.update aid st (agent_status orch)\<rparr>"

text \<open>\<^verbatim>\<open>handle_agent_callback\<close> on the two events \<^verbatim>\<open>process_task\<close> sends, with
  \<^verbatim>\<open>handle_task_completion\<close>, \<^verbatim>\<open>handle_task_failure\<close> and \<^verbatim>\<open>handle_task_recovery\<close>
  inlined.\<close>

fun handle_agent_callback :: "orchestrator \<Rightarrow> agent_event \<Rightarrow> orchestrator" where
  "handle_agent_callback orch (Task_completed aid tid) =
     set_agent_status (log_info orch (Log_task_completed tid aid)) aid IDLE"
| "handle_agent_callback orch (Task_failed aid tid e) =
     log_info (set_agent_status (log_info orch (Log_task_failed tid aid e)) aid FAILED)
       (Log_task_recovery_needed tid aid e)"

text \<open>
  \<^verbatim>\<open>execute_agent_task\<close>. The agent object is mutated by \<^verbatim>\<open>process_task\<close>, so the
  registry entry is replaced by the agent afterwards. \<^verbatim>\<open>process_task\<close> returns for
  every input, so the \<^verbatim>\<open>except\<close> clause of the source (status \<^verbatim>\<open>FAILED\<close>, re-raise)
  has no run that reaches it.
\<close>

definition execute_agent_task ::
  "orchestrator \<Rightarrow> string \<Rightarrow> task \<Rightarrow> (error + task_result) \<times> orchestrator" where
  "execute_agent_task orch aid t =
     (case map_of (agents orch) aid of
        None \<Rightarrow> (Inl (AgentNotFound aid), orch)
      | Some ag \<Rightarrow>
          (let orch1 = log_info orch (Log_assigning_task (task_id t) (name ag));
               orch2 = set_agent_status orch1 aid EXECUTING;
               (r, ag', events) = process_task ag t;
               orch3 = orch2\<lparr>agents := AList.update aid ag' (agents orch2)\<rparr>;
               orch4 = fold (\<lambda>ev oc. handle_agent_callback oc ev) events orch3
           in (Inr r, set_agent_status orch4 aid IDLE)))"

section \<open>Phase execution\<close>

text \<open>The \<^verbatim>\<open>for task in tasks\<close> loop of \<^verbatim>\<open>execute_sequential_phase\<close>, with the dict
  \<^verbatim>\<open>results\<close> as accumulator.\<close>

fun sequential_loop ::
  "orchestrator \<Rightarrow> task list \<Rightarrow> (string \<times> task_result) list
     \<Rightarrow> (error + (string \<times> task_result) list) \<times> orchestrator" where
  "sequential_loop orch [] results = (Inr results, orch)"
| "sequential_loop orch (t # ts) results =
     (if \<not> check_task_dependencies t results
      then (Inl (DependenciesNotMet (task_id t)), orch)
      else (case resolve_agent orch (agent t) of
              None \<Rightarrow> (Inl (NoAgentFound (agent t)), orch)
            | Some aid \<Rightarrow>
                (case execute_agent_task orch aid t of
                   (Inl e, orch') \<Rightarrow> (Inl e, orch')
                 | (Inr task_res, orch') \<Rightarrow>
                     (let results' = AList.update (task_id t) task_res results
                      in if \<not> success task_res
                         then (Inl (TaskFailed (task_id t)
                                      (case error task_res of
                                         None \<Rightarrow> UnknownError | Some e \<Rightarrow> e)), orch')
                         else sequential_loop orch' ts results'))))"

definition execute_sequential_phase ::
  "orchestrator \<Rightarrow> string \<Rightarrow> phase_config \<Rightarrow> (error + phase_result) \<times> orchestrator" where
  "execute_sequential_phase orch deployment_id pc =
     (case sequential_loop orch (tasks pc) [] of
        (Inl e, orch') \<Rightarrow> (Inl e, orch')
      | (Inr results, orch') \<Rightarrow>
          (Inr \<lparr>pr_phase = phase_value (phase pc), pr_parallel_execution = False,
                pr_task_results = results, pr_success = True\<rparr>, orch'))"

text \<open>
  The first loop of \<^verbatim>\<open>execute_parallel_phase\<close>: one coroutine per task whose agent
  resolves; a task whose agent does not resolve adds nothing to the list.
\<close>

definition task_coroutines :: "orchestrator \<Rightarrow> task list \<Rightarrow> (string \<times> task) list" where
  "task_coroutines orch ts =
     concat (map (\<lambda>t. case resolve_agent orch (agent t) of
                         None \<Rightarrow> []
                       | Some aid \<Rightarrow> [(aid, t)]) ts)"

text \<open>
  \<^verbatim>\<open>asyncio.gather(*task_coroutines, return_exceptions=True)\<close>: one outcome per
  coroutine, in the order of the coroutines, an exception as a value. The coroutines are
  run here one after the other in that order, which is the schedule \<^verbatim>\<open>gather\<close>
  produces when no coroutine suspends; with agents that suspend, another interleaving
  can reorder the writes to the orchestrator's log and status map, not the position of
  an outcome in the list.
\<close>

fun gather :: "orchestrator \<Rightarrow> (string \<times> task) list \<Rightarrow> (error + task_result) list \<times> orchestrator" where
  "gather orch [] = ([], orch)"
| "gather orch ((aid, t) # cs) =
     (let (outcome, orch1) = execute_agent_task orch aid t;
          (outcomes, orch2) = gather orch1 cs
      in (outcome # outcomes, orch2))"

text \<open>What \<^verbatim>\<open>execute_parallel_phase\<close> stores for one gathered outcome.\<close>

definition exception_result :: "error \<Rightarrow> task_result" where
  "exception_result e =
     \<lparr>success = False, result = None, report = None, error = Some e,
      error_report = None, execution_time = None\<rparr>"

fun outcome_result :: "error + task_result \<Rightarrow> task_result" where
  "outcome_result (Inl e) = exception_result e"
| "outcome_result (Inr r) = r"

text \<open>
  The second loop, \<^verbatim>\<open>for i, result in enumerate(task_results)\<close>: the \<open>i\<close>-th outcome
  is stored under the id of the \<open>i\<close>-th task of the phase.
\<close>

definition collect_results ::
  "task list \<Rightarrow> (error + task_result) list \<Rightarrow> (string \<times> task_result) list" where
  "collect_results ts task_results =
     fold (\<lambda>(t, outcome) results. AList.update (task_id t) (outcome_result outcome) results)
       (zip ts task_results) []"

definition execute_parallel_phase ::
  "orchestrator \<Rightarrow> string \<Rightarrow> phase_config \<Rightarrow> (error + phase_result) \<times> orchestrator" where
  "execute_parallel_phase orch deployment_id pc =
     (let (task_results, orch') = gather orch (task_coroutines orch (tasks pc));
          results = collect_results (tasks pc) task_results
      in (Inr \<lparr>pr_phase = phase_value (phase pc), pr_parallel_execution = True,
               pr_task_results = results,
               pr_success = list_all success (map snd results)\<rparr>, orch'))"

section \<open>Deployment execution\<close>

text \<open>A write through the alias \<^verbatim>\<open>deployment = self.active_deployments[deployment_id]\<close>.\<close>

definition update_deployment ::
  "orchestrator \<Rightarrow> string \<Rightarrow> (deployment \<Rightarrow> deployment) \<Rightarrow> orchestrator" where
  "update_deployment orch deployment_id f =
     orch\<lparr>active_deployments := AList.map_entry deployment_id f (active_deployments orch)\<rparr>"

definition run_phase ::
  "orchestrator \<Rightarrow> string \<Rightarrow> phase_config \<Rightarrow> (error + phase_result) \<times> orchestrator" where
  "run_phase orch deployment_id pc =
     (if parallel_execution pc then execute_parallel_phase orch deployment_id pc
      else execute_sequential_phase orch deployment_id pc)"

text \<open>The \<^verbatim>\<open>for phase_config in plan['phases']\<close> loop of
  \<^verbatim>\<open>execute_deployment_phases\<close>, with the dict \<^verbatim>\<open>results\<close> as accumulator.\<close>

fun phases_loop ::
  "orchestrator \<Rightarrow> string \<Rightarrow> phase_config list \<Rightarrow> (string \<times> phase_result) list
     \<Rightarrow> (error + (string \<times> phase_result) list) \<times> orchestrator" where
  "phases_loop orch deployment_id [] results = (Inr results, orch)"
| "phases_loop orch deployment_id (pc # pcs) results =
     (let orch1 = orch\<lparr>current_phase := phase pc\<rparr>;
          orch2 = update_deployment orch1 deployment_id (\<lambda>d. d\<lparr>dep_phase := phase pc\<rparr>);
          orch3 = log_info orch2 (Log_starting_phase (phase_value (phase pc)))
      in case run_phase orch3 deployment_id pc of
           (Inl e, orch4) \<Rightarrow>
             (Inl (DeploymentFailedInPhase (phase_value (phase pc)) e),
              log_info orch4 (Log_phase_failed (phase_value (phase pc)) e))
         | (Inr phase_res, orch4) \<Rightarrow>
             (let results' = AList.update (phase_value (phase pc)) phase_res results;
                  orch5 = update_deployment orch4 deployment_id
                            (\<lambda>d. d\<lparr>dep_task_results :=
                                     AList.update (phase_value (phase pc)) phase_res
                                       (dep_task_results d)\<rparr>);
                  orch6 = log_info orch5 (Log_phase_completed (phase_value (phase pc)))
              in phases_loop orch6 deployment_id pcs results'))"

definition execute_deployment_phases ::
  "orchestrator \<Rightarrow> string \<Rightarrow> master_plan
     \<Rightarrow> (error + (string \<times> phase_result) list) \<times> orchestrator" where
  "execute_deployment_phases orch deployment_id plan =
     (case map_of (active_deployments orch) deployment_id of
        None \<Rightarrow> (Inl (KeyError deployment_id), orch)
      | Some d \<Rightarrow> phases_loop orch deployment_id (phases plan) [])"

text \<open>
  \<^verbatim>\<open>generate_final_report\<close>: the execution summary, the phase results and the agent
  reports, then the write of the report file. The time stamps and the constant blocks of
  text (credentials, access information, the two guides) are left out: no branch reads
  them.
\<close>

definition collect_agent_reports ::
  "(string \<times> phase_result) list \<Rightarrow> (string \<times> task_report) list" where
  "collect_agent_reports results =
     fold (\<lambda>(tid, task_res) reports.
             case report task_res of
               None \<Rightarrow> reports
             | Some rep \<Rightarrow> AList.update tid rep reports)
       (concat (map (\<lambda>(phase_name, phase_res). pr_task_results phase_res) results)) []"

definition generate_final_report ::
  "orchestrator \<Rightarrow> string \<Rightarrow> (string \<times> phase_result) list
     \<Rightarrow> (error + final_report) \<times> orchestrator" where
  "generate_final_report orch deployment_id results =
     (case map_of (active_deployments orch) deployment_id of
        None \<Rightarrow> (Inl (KeyError deployment_id), orch)
      | Some d \<Rightarrow>
          (let rep = \<lparr>fr_deployment_id = deployment_id,
                      fr_client_data = dep_client_data d,
                      fr_phases_completed = length results,
                      fr_success = list_all pr_success (map snd results),
                      fr_phase_results = results,
                      fr_agent_reports = collect_agent_reports results\<rparr>;
               report_file = ''reports/final_report_'' @ deployment_id @ ''.json''
           in if fs_writable orch report_file
              then (Inr rep, orch\<lparr>files_written := files_written orch @ [report_file]\<rparr>)
              else (Inl (IOError report_file), orch)))"

definition handle_deployment_failure :: "orchestrator \<Rightarrow> string \<Rightarrow> error \<Rightarrow> failure_report" where
  "handle_deployment_failure orch deployment_id e =
     \<lparr>failure_deployment_id = deployment_id,
      failure_error = e,
      phase_at_failure = phase_value (current_phase orch),
      completed_phases =
        (case map_of (active_deployments orch) deployment_id of
           None \<Rightarrow> []
         | Some d \<Rightarrow> map fst (dep_task_results d)),
      failure_agent_status = agent_status orch,
      recovery_suggestions =
        [''Review error logs for specific failure points'',
         ''Verify server connectivity and credentials'',
         ''Check service dependencies and prerequisites'',
         ''Retry deployment with corrected parameters'',
         ''Contact support with deployment ID and error details''],
      failure_rollback_plan =
        [''Stop all running Docker containers'',
         ''Remove created DNS records'',
         ''Clean up temporary files and configurations'',
         ''Restore server to pre-deployment state'',
         ''Document lessons learned for future deployments'']\<rparr>"

text \<open>\<^verbatim>\<open>DevOpsOrchestrator.update_performance_metrics\<close>.\<close>

definition update_orchestrator_metrics ::
  "orchestrator_metrics \<Rightarrow> bool \<Rightarrow> rat \<Rightarrow> orchestrator_metrics" where
  "update_orchestrator_metrics m succeeded t =
     (let m1 = m\<lparr>total_deployments := total_deployments m + 1\<rparr>;
          m2 = (if succeeded then m1\<lparr>successful_deployments := successful_deployments m1 + 1\<rparr>
                else m1\<lparr>failed_deployments := failed_deployments m1 + 1\<rparr>);
          n = total_deployments m2
      in m2\<lparr>average_deployment_time :=
               (average_deployment_time m2 * of_nat (n - 1) + t) / of_nat n,
             deployment_success_rate := of_nat (successful_deployments m2) / of_nat n\<rparr>)"

text \<open>The \<^verbatim>\<open>try\<close> block of \<^verbatim>\<open>deploy_infrastructure\<close> up to the final report.\<close>

definition deploy_attempt ::
  "orchestrator \<Rightarrow> string \<Rightarrow> pydict
     \<Rightarrow> (error + (string \<times> phase_result) list \<times> final_report) \<times> orchestrator" where
  "deploy_attempt orch deployment_id request =
     (let orch1 = log_info orch (Log_starting_deployment deployment_id)
      in case initialize_deployment orch1 deployment_id request of
           (Inl e, orch2) \<Rightarrow> (Inl e, orch2)
         | (Inr d, orch2) \<Rightarrow>
             (let orch3 = orch2\<lparr>active_deployments :=
                                  AList.update deployment_id d (active_deployments orch2)\<rparr>
              in case create_master_execution_plan request of
                   Inl e \<Rightarrow> (Inl e, orch3)
                 | Inr plan \<Rightarrow>
                     (let orch4 = update_deployment orch3 deployment_id
                                    (\<lambda>d. d\<lparr>dep_execution_plan := Some plan\<rparr>)
                      in case execute_deployment_phases orch4 deployment_id plan of
                           (Inl e, orch5) \<Rightarrow> (Inl e, orch5)
                         | (Inr results, orch5) \<Rightarrow>
                             (case generate_final_report orch5 deployment_id results of
                                (Inl e, orch6) \<Rightarrow> (Inl e, orch6)
                              | (Inr rep, orch6) \<Rightarrow> (Inr (results, rep), orch6)))))"

text \<open>\<^verbatim>\<open>deploy_infrastructure\<close>; \<open>deployment_id\<close> is the value \<^verbatim>\<open>uuid.uuid4()\<close>
  returned.\<close>

definition deploy_infrastructure ::
  "orchestrator \<Rightarrow> string \<Rightarrow> pydict \<Rightarrow> deployment_result \<times> orchestrator" where
  "deploy_infrastructure orch deployment_id request =
     (let (start_time, orch0) = orch_read_time orch;
          (attempt, orch1) = deploy_attempt orch0 deployment_id request;
          (end_time, orch2) = orch_read_time orch1;
          elapsed = end_time - start_time
      in case attempt of
           Inr (results, rep) \<Rightarrow>
             (let orch3 = orch2\<lparr>orchestrator_metrics :=
                             update_orchestrator_metrics (orchestrator_metrics orch2) True elapsed\<rparr>
              in (\<lparr>dr_deployment_id = deployment_id, dr_success = True,
                   dr_execution_time = elapsed, dr_result = Some results,
                   dr_final_report = Some rep, dr_error = None, dr_error_report = None\<rparr>,
                  log_info orch3 (Log_deployment_completed deployment_id)))
         | Inl e \<Rightarrow>
             (let orch3 = orch2\<lparr>orchestrator_metrics :=
                             update_orchestrator_metrics (orchestrator_metrics orch2) False elapsed\<rparr>;
                  err_report = handle_deployment_failure orch3 deployment_id e
              in (\<lparr>dr_deployment_id = deployment_id, dr_success = False,
                   dr_execution_time = elapsed, dr_result = None,
                   dr_final_report = None, dr_error = Some e,
                   dr_error_report = Some err_report\<rparr>,
                  log_info orch3 (Log_deployment_failed deployment_id e))))"

section \<open>Projections used in the statements\<close>

text \<open>The \<^verbatim>\<open>execution_time\<close> entry of a returned dict.\<close>

definition elapsed_of :: "task_result \<Rightarrow> rat" where
  "elapsed_of r = (case execution_time r of None \<Rightarrow> 0 | Some x \<Rightarrow> x)"

text \<open>The two shapes of the dict \<^verbatim>\<open>process_task\<close> returns: with \<^verbatim>\<open>success: True\<close>
  a result and a report and no error, with \<^verbatim>\<open>success: False\<close> an error and an
  error report and no result.\<close>

definition agent_dict :: "task_result \<Rightarrow> bool" where
  "agent_dict r =
     ((success r \<and> result r \<noteq> None \<and> report r \<noteq> None \<and> error r = None
         \<and> error_report r = None)
      \<or> (\<not> success r \<and> result r = None \<and> report r = None \<and> error r \<noteq> None
         \<and> error_report r \<noteq> None))"

text \<open>The derived entries of the metrics dict agree with its counters.\<close>

definition derived_metrics_agree :: "metrics \<Rightarrow> bool" where
  "derived_metrics_agree m =
     (average_task_time m
        = total_execution_time m / of_nat (tasks_completed m + tasks_failed m) \<and>
      success_rate m
        = of_nat (tasks_completed m) / of_nat (tasks_completed m + tasks_failed m))"

text \<open>The ids of the tasks the orchestrator handed to an agent, in order: one entry per
  \<^verbatim>\<open>Assigning task ... to agent ...\<close> line of its log.\<close>

definition assigned_tasks :: "orchestrator_log list \<Rightarrow> string list" where
  "assigned_tasks l =
     concat (map (\<lambda>e. case e of Log_assigning_task tid nm \<Rightarrow> [tid] | _ \<Rightarrow> []) l)"

text \<open>The phases the orchestrator started, in order: one entry per
  \<^verbatim>\<open>Starting phase: ...\<close> line of its log.\<close>

definition started_phases :: "orchestrator_log list \<Rightarrow> string list" where
  "started_phases l =
     concat (map (\<lambda>e. case e of Log_starting_phase p \<Rightarrow> [p] | _ \<Rightarrow> []) l)"

text \<open>
  The result a sequential phase records for its first task \<open>t\<close> when it starts in state
  \<open>orch\<close>: \<open>None\<close> when the dependency check, the agent lookup or the dispatch raises
  before anything is recorded.
\<close>

definition recorded_result :: "orchestrator \<Rightarrow> task \<Rightarrow> task_result option" where
  "recorded_result orch t =
     (if \<not> check_task_dependencies t [] then None
      else case resolve_agent orch (agent t) of
             None \<Rightarrow> None
           | Some aid \<Rightarrow>
               (case fst (execute_agent_task orch aid t) of
                  Inl e \<Rightarrow> None
                | Inr r \<Rightarrow> Some r))"

section \<open>Concrete agents, orchestrators and requests\<close>

text \<open>Three capabilities: one that returns, one that raises on every call, one that
  raises on its first call only.\<close>

definition returns_done :: "nat \<Rightarrow> pydict \<Rightarrow> error + pyval" where
  "returns_done k ps = Inr (PStr ''done'')"

definition always_raises :: "nat \<Rightarrow> pydict \<Rightarrow> error + pyval" where
  "always_raises k ps = Inl (CapabilityError ''connection refused'')"

definition raises_once :: "nat \<Rightarrow> pydict \<Rightarrow> error + pyval" where
  "raises_once k ps =
     (if k = 0 then Inl (CapabilityError ''connection reset'') else Inr (PStr ''done''))"

text \<open>An agent as \<^verbatim>\<open>BaseAgent.__init__\<close> leaves it, with the attribute
  \<^verbatim>\<open>agent_type\<close> set to its id (as \<^verbatim>\<open>ServerSetupAgent\<close> does), the base validation
  hook, and a clock that advances by one second per reading.\<close>

definition example_agent ::
  "string \<Rightarrow> string \<Rightarrow> (nat \<Rightarrow> pydict \<Rightarrow> error + pyval) \<Rightarrow> base_agent" where
  "example_agent aid nm cap =
     \<lparr>agent_id = aid, name = nm, agent_type = Some aid, status = IDLE,
      orchestrator_callback = False, current_task = None, completed_tasks = [],
      failed_tasks = [], execution_log = [], performance_metrics = initial_metrics,
      capability = cap, calls = 0, time_source = (\<lambda>k. of_nat k), time_reads = 0,
      sleeps = [], perform_agent_validation = base_perform_agent_validation\<rparr>"

text \<open>The orchestrator as \<^verbatim>\<open>DevOpsOrchestrator.__init__\<close> leaves it, on a file system
  that accepts every write.\<close>

definition example_orchestrator :: orchestrator where
  "example_orchestrator =
     \<lparr>agents = [], agent_status = [], active_deployments = [],
      current_phase = Phase_INITIALIZATION,
      orchestrator_metrics =
        \<lparr>total_deployments = 0, successful_deployments = 0, failed_deployments = 0,
         average_deployment_time = 0, deployment_success_rate = 0\<rparr>,
      orchestrator_log = [], fs_writable = (\<lambda>path. True), files_written = [],
      orch_time_source = (\<lambda>k. of_nat k), orch_time_reads = 0\<rparr>"

text \<open>A team with one agent for every role a plan without Supabase names; the
  capabilities of the N8N agent and of the DNS agent are parameters.\<close>

definition example_team ::
  "(nat \<Rightarrow> pydict \<Rightarrow> error + pyval) \<Rightarrow> (nat \<Rightarrow> pydict \<Rightarrow> error + pyval) \<Rightarrow> orchestrator" where
  "example_team n8n_capability dns_capability =
     fold (\<lambda>ag orch. register_agent orch ag)
       [example_agent ''server_setup'' ''Base Server Setup Agent'' returns_done,
        example_agent ''n8n_deployment'' ''N8N Deployment Agent'' n8n_capability,
        example_agent ''dns_manager'' ''Cloudflare DNS Manager Agent'' dns_capability,
        example_agent ''proxy_configurator'' ''Nginx Proxy Configurator Agent'' returns_done,
        example_agent ''system_validator'' ''System Validator Agent'' returns_done,
        example_agent ''final_reporter'' ''Final Report Agent'' returns_done]
       example_orchestrator"

text \<open>The request of the end-to-end scenario of the specification (its \<open>serverIp\<close> is
  the key \<^verbatim>\<open>server_ip\<close> the code reads), and the same request with a project name.\<close>

definition scenario_request :: pydict where
  "scenario_request =
     [(''domain'', PStr ''example.com''), (''email'', PStr ''a@example.com''),
      (''server_ip'', PStr ''10.0.0.5''), (''services'', PList [PStr ''n8n''])]"

definition named_request :: pydict where
  "named_request = (''project_name'', PStr ''demo'') # scenario_request"

definition no_services_request :: pydict where
  "no_services_request =
     [(''domain'', PStr ''example.com''), (''email'', PStr ''a@example.com''),
      (''project_name'', PStr ''demo''), (''server_ip'', PStr ''10.0.0.5'')]"

text \<open>A step-execution result in which no step succeeded.\<close>

definition no_step_succeeded :: execution_result where
  "no_step_succeeded =
     \<lparr>plan_id = ''n8n_deployment'', steps_executed = 0, steps_successful = 0,
      total_duration = 0, step_results = []\<rparr>"

text \<open>A validation hook of a subclass that reports \<^verbatim>\<open>valid: True\<close>.\<close>

definition approving_hook :: "execution_result \<Rightarrow> validation_update" where
  "approving_hook r =
     \<lparr>upd_valid = Some True, upd_errors = None, upd_warnings = None,
      upd_checks_performed = Some [''custom_check'']\<rparr>"

text \<open>A parallel phase of three tasks for three registered agents, the second of which
  raises on every call.\<close>

definition fan_task :: "string \<Rightarrow> string \<Rightarrow> task" where
  "fan_task tid role =
     \<lparr>task_id = tid, agent = role, description = ''Deploy '' @ tid, priority = HIGH,
      estimated_duration = 600, parameters = [], dependencies = []\<rparr>"

definition fan_phase :: phase_config where
  "fan_phase =
     \<lparr>phase = Phase_SERVICES, phase_description = ''Deploy core services in parallel'',
      tasks = [fan_task ''task_1'' ''alpha'', fan_task ''task_2'' ''beta'',
               fan_task ''task_3'' ''gamma''],
      parallel_execution = True\<rparr>"

definition fan_team :: orchestrator where
  "fan_team =
     fold (\<lambda>ag orch. register_agent orch ag)
       [example_agent ''alpha'' ''Alpha Agent'' returns_done,
        example_agent ''beta'' ''Beta Agent'' always_raises,
        example_agent ''gamma'' ''Gamma Agent'' returns_done]
       example_orchestrator"

text \<open>The Services phase planned for the scenario request, once as planned and once
  marked sequential.\<close>

definition n8n_only_phase :: "bool \<Rightarrow> phase_config" where
  "n8n_only_phase par =
     \<lparr>phase = Phase_SERVICES, phase_description = ''Deploy core services in parallel'',
      tasks = [n8n_task named_request], parallel_execution = par\<rparr>"

text \<open>A Services phase with both services, and an orchestrator on which only the
  Supabase agent is registered.\<close>

definition two_services_phase :: phase_config where
  "two_services_phase =
     \<lparr>phase = Phase_SERVICES, phase_description = ''Deploy core services in parallel'',
      tasks = [n8n_task named_request, supabase_task named_request],
      parallel_execution = True\<rparr>"

definition supabase_only_team :: orchestrator where
  "supabase_only_team =
     register_agent example_orchestrator
       (example_agent ''supabase_deployment'' ''Supabase Deployment Agent'' returns_done)"

text \<open>A capability that raises on its first two calls, so that of two tasks run one
  after the other the first fails and the second succeeds.\<close>

definition raises_twice :: "nat \<Rightarrow> pydict \<Rightarrow> error + pyval" where
  "raises_twice k ps =
     (if k < 2 then Inl (CapabilityError ''connection reset'') else Inr (PStr ''done''))"

text \<open>A clock with a coarse tick: the first three readings (start of the task, start of
  the step, failure of the step) fall into one tick, the later ones come after the five
  seconds of the recovery delay. The agent raises on its first call only.\<close>

definition coarse_clock :: "nat \<Rightarrow> rat" where
  "coarse_clock k = (if k < 3 then 1700000000 else 1700000005)"

definition coarse_clock_agent :: base_agent where
  "coarse_clock_agent =
     (example_agent ''n8n_deployment'' ''N8N Deployment Agent'' raises_once)
       \<lparr>time_source := coarse_clock\<rparr>"

section \<open>Lemmas about one agent\<close>

subsection \<open>The metrics are written by \<^verbatim>\<open>update_performance_metrics\<close> only\<close>

lemma run_step_metrics: "performance_metrics (snd (run_step ag s)) = performance_metrics ag"
  by (simp add: run_step_def execute_primary_function_def execute_custom_function_def)

lemma attempt_step_recovery_metrics:
  "performance_metrics (snd (attempt_step_recovery ag s e)) = performance_metrics ag"
  using run_step_metrics [of "ag\<lparr>sleeps := sleeps ag @ [5]\<rparr>" s]
  by (auto simp: attempt_step_recovery_def Let_def split: prod.splits sum.splits)

lemma monitor_steps_metrics:
  "performance_metrics (snd (monitor_steps ag ss acc)) = performance_metrics ag"
proof (induction ss arbitrary: ag acc)
  case Nil
  show ?case by simp
next
  case (Cons s ss)
  obtain t0 ag1 where r1: "read_time ag = (t0, ag1)" by (cases "read_time ag")
  obtain out ag2 where r2: "run_step ag1 s = (out, ag2)" by (cases "run_step ag1 s")
  obtain t1 ag3 where r3: "read_time ag2 = (t1, ag3)" by (cases "read_time ag2")
  have m1: "performance_metrics ag1 = performance_metrics ag"
    using r1 by (auto simp: read_time_def)
  have m2: "performance_metrics ag2 = performance_metrics ag1"
    using run_step_metrics [of ag1 s] r2 by simp
  have m3: "performance_metrics ag3 = performance_metrics ag2"
    using r3 by (auto simp: read_time_def)
  show ?case
  proof (cases out)
    case (Inr v)
    then show ?thesis
      using r1 r2 r3 m1 m2 m3 by (simp add: Cons.IH log_execution_step_def)
  next
    case (Inl e)
    obtain rc ag4 where r4: "attempt_step_recovery ag3 s e = (rc, ag4)"
      by (cases "attempt_step_recovery ag3 s e")
    have m4: "performance_metrics ag4 = performance_metrics ag3"
      using attempt_step_recovery_metrics [of ag3 s e] r4 by simp
    show ?thesis
      using Inl r1 r2 r3 r4 m1 m2 m3 m4 by (simp add: Cons.IH)
  qed
qed

lemma execute_with_monitoring_metrics:
  "performance_metrics (snd (execute_with_monitoring ag p)) = performance_metrics ag"
  using monitor_steps_metrics [of ag "steps p" "[]"]
  by (auto simp: execute_with_monitoring_def split: prod.splits sum.splits)

lemma process_task_attempt_metrics:
  "performance_metrics (snd (process_task_attempt ag t)) = performance_metrics ag"
proof -
  let ?planning = "ag\<lparr>status := PLANNING\<rparr>"
  let ?plan = "create_execution_plan ?planning t"
  let ?executing = "(log_execution_step ?planning (TaskPlanningCompleted ?plan))\<lparr>status := EXECUTING\<rparr>"
  have "performance_metrics (snd (execute_with_monitoring ?executing ?plan))
          = performance_metrics ag"
    by (simp add: execute_with_monitoring_metrics log_execution_step_def)
  then show ?thesis
    by (auto simp: process_task_attempt_def Let_def split: prod.splits sum.splits)
qed

lemma process_task_finally_metrics:
  "performance_metrics (process_task_finally ag) = performance_metrics ag"
  by (simp add: process_task_finally_def Let_def)

lemma process_task_metrics:
  "performance_metrics (fst (snd (process_task ag t))) =
     update_performance_metrics (performance_metrics ag)
       (success (fst (process_task ag t))) (elapsed_of (fst (process_task ag t)))"
proof -
  let ?started = "snd (read_time (ag\<lparr>current_task := Some t\<rparr>))"
  have "performance_metrics (snd (process_task_attempt ?started t)) = performance_metrics ag"
    by (simp add: process_task_attempt_metrics read_time_def)
  then show ?thesis
    by (auto simp: process_task_def Let_def elapsed_of_def read_time_def
          process_task_finally_metrics split: prod.splits sum.splits)
qed

lemma process_task_agent_dict: "agent_dict (fst (process_task ag t))"
  by (auto simp: agent_dict_def process_task_def Let_def split: prod.splits sum.splits)

subsection \<open>One update of the metrics\<close>

lemma update_metrics_completed:
  "tasks_completed (update_performance_metrics m s x)
     = tasks_completed m + (if s then 1 else 0)"
  by (simp add: update_performance_metrics_def Let_def)

lemma update_metrics_failed:
  "tasks_failed (update_performance_metrics m s x) = tasks_failed m + (if s then 0 else 1)"
  by (simp add: update_performance_metrics_def Let_def)

lemma update_metrics_total:
  "total_execution_time (update_performance_metrics m s x) = total_execution_time m + x"
  by (simp add: update_performance_metrics_def Let_def)

lemma update_metrics_average:
  "average_task_time (update_performance_metrics m s x) =
     (total_execution_time m + x) / of_nat (tasks_completed m + tasks_failed m + 1)"
  by (simp add: update_performance_metrics_def Let_def add_ac)

lemma update_metrics_rate:
  "success_rate (update_performance_metrics m s x) =
     of_nat (tasks_completed m + (if s then 1 else 0))
       / of_nat (tasks_completed m + tasks_failed m + 1)"
  by (simp add: update_performance_metrics_def Let_def add_ac)

lemma update_metrics_agree: "derived_metrics_agree (update_performance_metrics m s x)"
  by (simp add: derived_metrics_agree_def update_metrics_completed update_metrics_failed
        update_metrics_total update_metrics_average update_metrics_rate)

subsection \<open>A run of \<^verbatim>\<open>process_task\<close> calls\<close>

lemma process_tasks_Cons:
  "process_tasks ag (t # ts) =
     (fst (process_task ag t) # fst (process_tasks (fst (snd (process_task ag t))) ts),
      snd (process_tasks (fst (snd (process_task ag t))) ts))"
  by (simp split: prod.splits)

lemma process_tasks_length: "length (fst (process_tasks ag ts)) = length ts"
  by (induction ts arbitrary: ag) (simp_all add: process_tasks_Cons del: process_tasks.simps(2))

lemma process_tasks_counts:
  "tasks_completed (performance_metrics (snd (process_tasks ag ts))) =
     tasks_completed (performance_metrics ag) + length (filter success (fst (process_tasks ag ts)))
   \<and> tasks_failed (performance_metrics (snd (process_tasks ag ts))) =
     tasks_failed (performance_metrics ag)
       + length (filter (\<lambda>r. \<not> success r) (fst (process_tasks ag ts)))
   \<and> total_execution_time (performance_metrics (snd (process_tasks ag ts))) =
     total_execution_time (performance_metrics ag)
       + sum_list (map elapsed_of (fst (process_tasks ag ts)))"
proof (induction ts arbitrary: ag)
  case Nil
  show ?case by simp
next
  case (Cons t ts)
  obtain r ag1 evs where p: "process_task ag t = (r, ag1, evs)"
    by (cases "process_task ag t")
  have m: "performance_metrics ag1 =
      update_performance_metrics (performance_metrics ag) (success r) (elapsed_of r)"
    using process_task_metrics [of ag t] p by simp
  show ?case
    using Cons.IH [of ag1] p m
    by (simp add: process_tasks_Cons update_metrics_completed update_metrics_failed
          update_metrics_total del: process_tasks.simps(2))
qed

lemma process_tasks_agree:
  "ts \<noteq> [] \<Longrightarrow> derived_metrics_agree (performance_metrics (snd (process_tasks ag ts)))"
proof (induction ts arbitrary: ag)
  case Nil
  then show ?case by simp
next
  case (Cons t ts)
  obtain r ag1 evs where p: "process_task ag t = (r, ag1, evs)"
    by (cases "process_task ag t")
  have m: "performance_metrics ag1 =
      update_performance_metrics (performance_metrics ag) (success r) (elapsed_of r)"
    using process_task_metrics [of ag t] p by simp
  show ?case
  proof (cases "ts = []")
    case True
    then show ?thesis using p m by (simp add: update_metrics_agree)
  next
    case False
    then show ?thesis using Cons.IH [of ag1] p
      by (simp add: process_tasks_Cons del: process_tasks.simps(2))
  qed
qed

lemma filter_complement_length:
  "length (filter P xs) + length (filter (\<lambda>x. \<not> P x) xs) = length xs"
  by (induction xs) auto

lemma count_by_flags:
  "length (filter P xs) = length (filter (\<lambda>b. b) (map P xs))"
  by (induction xs) auto

subsection \<open>One step that raises on its first execution\<close>

lemma run_step_primary:
  "step_function s = ''execute_primary_function'' \<Longrightarrow>
   run_step ag s = (capability ag (calls ag) (step_parameters s), ag\<lparr>calls := Suc (calls ag)\<rparr>)"
  by (simp add: run_step_def execute_primary_function_def)

lemma monitor_steps_unrecovered:
  assumes prim: "step_function s = ''execute_primary_function''"
    and first: "capability ag (calls ag) (step_parameters s) = Inl e1"
    and second: "capability ag (Suc (calls ag)) (step_parameters s) = Inl e2"
  shows "monitor_steps ag (s # ss) acc =
           (Inl (StepNotRecovered (step_id s) e1),
            ag\<lparr>time_reads := time_reads ag + 2, sleeps := sleeps ag @ [5],
               calls := calls ag + 2\<rparr>)"
  using first second
  by (simp add: run_step_primary [OF prim] read_time_def attempt_step_recovery_def Let_def)

lemma monitor_steps_recovered:
  assumes prim: "step_function s = ''execute_primary_function''"
    and first: "capability ag (calls ag) (step_parameters s) = Inl e1"
    and second: "capability ag (Suc (calls ag)) (step_parameters s) = Inr v"
  shows "monitor_steps ag (s # ss) acc =
           monitor_steps
             (ag\<lparr>time_reads := time_reads ag + 2, sleeps := sleeps ag @ [5],
                 calls := calls ag + 2\<rparr>) ss
             (acc @ [\<lparr>sr_step_id = step_id s, sr_success = True, sr_result = Some v,
                       sr_error = None,
                       sr_duration = time_source ag (Suc (time_reads ag))
                                       - time_source ag (time_reads ag),
                       sr_recovered = Some True\<rparr>])"
  using first second
  by (simp add: run_step_primary [OF prim] read_time_def attempt_step_recovery_def Let_def)

lemmas process_task_unfold =
  process_task_def process_task_attempt_def process_task_finally_def Let_def
  create_execution_plan_def execute_with_monitoring_def generate_execution_steps_def
  log_execution_step_def run_step_def execute_primary_function_def read_time_def
  attempt_step_recovery_def validate_execution_def dict_update_def generate_task_report_def
  calculate_performance_impact_def

lemma process_task_unrecovered:
  assumes first: "capability ag (calls ag) (parameters t) = Inl e1"
    and second: "capability ag (Suc (calls ag)) (parameters t) = Inl e2"
  shows "success (fst (process_task ag t)) = False"
    and "error (fst (process_task ag t)) = Some (StepNotRecovered 1 e1)"
    and "calls (fst (snd (process_task ag t))) = calls ag + 2"
    and "sleeps (fst (snd (process_task ag t))) = sleeps ag @ [5]"
  using first second by (simp_all add: process_task_unfold)

lemma process_task_recovered_effects:
  assumes first: "capability ag (calls ag) (parameters t) = Inl e1"
    and second: "capability ag (Suc (calls ag)) (parameters t) = Inr v"
  shows "calls (fst (snd (process_task ag t))) = calls ag + 2"
    and "sleeps (fst (snd (process_task ag t))) = sleeps ag @ [5]"
  using first second by (simp_all add: process_task_unfold)

lemma process_task_recovered_success:
  assumes first: "capability ag (calls ag) (parameters t) = Inl e1"
    and second: "capability ag (Suc (calls ag)) (parameters t) = Inr v"
    and hook: "\<forall>r. upd_valid (perform_agent_validation ag r) \<noteq> Some False"
    and clock: "time_source ag (time_reads ag + 2) \<noteq> time_source ag (time_reads ag + 1)"
  shows "success (fst (process_task ag t))"
    and "\<exists>r d. result (fst (process_task ag t)) = Some r \<and>
           step_results r = [\<lparr>sr_step_id = 1, sr_success = True, sr_result = Some v,
             sr_error = None, sr_duration = d, sr_recovered = Some True\<rparr>]"
proof -
  have approved:
    "valid (dict_update \<lparr>valid = True, errors = [], warnings = [], checks_performed = []\<rparr>
              (perform_agent_validation ag r))" for r
    using hook [rule_format, of r]
    by (cases "upd_valid (perform_agent_validation ag r)") (auto simp: dict_update_def)
  show "success (fst (process_task ag t))"
    using first second clock approved by (simp add: process_task_unfold)
  show "\<exists>r d. result (fst (process_task ag t)) = Some r \<and>
           step_results r = [\<lparr>sr_step_id = 1, sr_success = True, sr_result = Some v,
             sr_error = None, sr_duration = d, sr_recovered = Some True\<rparr>]"
    using first second clock approved by (simp add: process_task_unfold)
qed

section \<open>Lemmas about the orchestrator\<close>

subsection \<open>A plan for a request without services\<close>

lemma services_default_empty:
  assumes "map_of request ''services'' = None \<or> map_of request ''services'' = Some (PList [])"
  shows "py_get_default request ''services'' (PList []) = PList []"
  using assms by (auto simp: py_get_default_def)

lemma plan_services_phase_empty:
  assumes "map_of request ''services'' = None \<or> map_of request ''services'' = Some (PList [])"
  shows "plan_services_phase request =
           Inr \<lparr>phase = Phase_SERVICES, phase_description = ''Deploy core services in parallel'',
                 tasks = [], parallel_execution = True\<rparr>"
  by (simp add: plan_services_phase_def services_default_empty [OF assms])

lemma estimate_with_empty_parallel_phase:
  assumes "tasks sp = []" and "parallel_execution sp"
  shows "estimate_total_duration (plan_infrastructure_phase request # sp # rest)
           = Inl MaxOfEmptySequence"
  using assms
  by (simp add: estimate_total_duration_def plan_infrastructure_phase_def py_max_def)

lemma create_plan_empty_services:
  assumes "map_of request ''services'' = None \<or> map_of request ''services'' = Some (PList [])"
  shows "create_master_execution_plan request =
           (case determine_optimal_strategy request of
              Inl e \<Rightarrow> Inl e | Inr s \<Rightarrow> Inl MaxOfEmptySequence)"
  by (simp add: create_master_execution_plan_def plan_services_phase_empty [OF assms]
        estimate_with_empty_parallel_phase Let_def split: sum.splits)

lemma strategy_defined:
  assumes "map_of request ''services'' = None \<or> map_of request ''services'' = Some (PList [])"
    and "py_len (py_get_default request ''configuration'' (PDict [])) = Inr n"
  shows "\<exists>s. determine_optimal_strategy request = Inr s"
  using assms(2)
  by (simp add: determine_optimal_strategy_def services_default_empty [OF assms(1)] Let_def)

lemma deploy_attempt_without_plan:
  assumes "create_master_execution_plan request = Inl e"
  shows "\<exists>e'. fst (deploy_attempt orch did request) = Inl e'"
  using assms
  by (auto simp: deploy_attempt_def Let_def split: prod.splits sum.splits)

lemma deploy_fails_when_attempt_fails:
  assumes "\<And>orch'. \<exists>e'. fst (deploy_attempt orch' did request) = Inl e'"
  shows "\<not> dr_success (fst (deploy_infrastructure orch did request))"
proof -
  obtain e' where "fst (deploy_attempt (snd (orch_read_time orch)) did request) = Inl e'"
    using assms by blast
  then show ?thesis
    by (auto simp: deploy_infrastructure_def Let_def split: prod.splits sum.splits)
qed

subsection \<open>The results dict of a parallel phase\<close>

lemma update_fresh_key:
  "k \<notin> fst ` set al \<Longrightarrow> AList.update k v al = al @ [(k, v)]"
  by (induction al) auto

lemma fold_update_distinct:
  assumes "length ts = length os"
    and "distinct (map task_id ts)"
    and "set (map task_id ts) \<inter> fst ` set acc = {}"
  shows "fold (\<lambda>(t, outcome) results. AList.update (task_id t) (outcome_result outcome) results)
           (zip ts os) acc
         = acc @ zip (map task_id ts) (map outcome_result os)"
  using assms
proof (induction ts os arbitrary: acc rule: list_induct2)
  case Nil
  then show ?case by simp
next
  case (Cons t ts x os)
  have fresh: "task_id t \<notin> fst ` set acc"
    using Cons.prems(2) by auto
  have disj: "set (map task_id ts) \<inter> fst ` set (acc @ [(task_id t, outcome_result x)]) = {}"
    using Cons.prems by auto
  have dist: "distinct (map task_id ts)"
    using Cons.prems(1) by simp
  show ?case
    using Cons.IH [OF dist disj] by (simp add: update_fresh_key [OF fresh])
qed

lemma collect_results_distinct:
  assumes "length ts = length os" and "distinct (map task_id ts)"
  shows "collect_results ts os = zip (map task_id ts) (map outcome_result os)"
  using fold_update_distinct [OF assms, of "[]"] by (simp add: collect_results_def)

lemma gather_Cons:
  "gather orch ((aid, t) # cs) =
     (fst (execute_agent_task orch aid t) # fst (gather (snd (execute_agent_task orch aid t)) cs),
      snd (gather (snd (execute_agent_task orch aid t)) cs))"
  by (simp split: prod.splits)

lemma gather_length: "length (fst (gather orch cs)) = length cs"
proof (induction cs arbitrary: orch)
  case Nil
  show ?case by simp
next
  case (Cons c cs)
  obtain aid t where c: "c = (aid, t)" by (cases c)
  show ?case unfolding c by (simp add: gather_Cons Cons.IH del: gather.simps)
qed

lemma task_coroutines_length:
  "list_all (\<lambda>t. resolve_agent orch (agent t) \<noteq> None) ts \<Longrightarrow>
   length (task_coroutines orch ts) = length ts"
  by (induction ts) (auto simp: task_coroutines_def)

lemma task_coroutines_tasks:
  "list_all (\<lambda>t. resolve_agent orch (agent t) \<noteq> None) ts \<Longrightarrow>
   map snd (task_coroutines orch ts) = ts"
  by (induction ts) (auto simp: task_coroutines_def)

lemma execute_parallel_phase_result:
  "fst (execute_parallel_phase orch did pc) =
     Inr \<lparr>pr_phase = phase_value (phase pc), pr_parallel_execution = True,
           pr_task_results =
             collect_results (tasks pc) (fst (gather orch (task_coroutines orch (tasks pc)))),
           pr_success =
             list_all success
               (map snd (collect_results (tasks pc)
                           (fst (gather orch (task_coroutines orch (tasks pc))))))\<rparr>"
  by (simp add: execute_parallel_phase_def Let_def split: prod.splits)

subsection \<open>Every dispatched agent is registered, so every gathered outcome is a dict\<close>

lemma find_in_list: "find P xs = Some x \<Longrightarrow> x \<in> set xs"
  by (induction xs) (auto split: if_splits)

lemma find_agent_registered:
  assumes "find_agent_by_type orch a = Some aid"
  shows "aid \<in> set (map fst (agents orch))"
proof -
  obtain P where "\<exists>ag. find P (agents orch) = Some (aid, ag)"
    using assms
    by (auto simp: find_agent_by_type_def Let_def split: option.splits prod.splits)
  then obtain ag where "(aid, ag) \<in> set (agents orch)"
    using find_in_list by fastforce
  then show ?thesis by force
qed

lemma resolve_agent_registered:
  "resolve_agent orch a = Some aid \<Longrightarrow> aid \<in> set (map fst (agents orch))"
  using find_agent_registered [of orch a]
  by (auto simp: resolve_agent_def split: option.splits if_splits)

lemma callbacks_agents:
  "agents (fold (\<lambda>ev oc. handle_agent_callback oc ev) evs orch) = agents orch"
proof (induction evs arbitrary: orch)
  case Nil
  show ?case by simp
next
  case (Cons ev evs)
  have "agents (handle_agent_callback orch ev) = agents orch"
    by (cases ev) (simp_all add: log_info_def set_agent_status_def)
  then show ?case by (simp add: Cons.IH)
qed

lemma execute_agent_task_keys:
  "aid \<in> set (map fst (agents orch)) \<Longrightarrow>
   map fst (agents (snd (execute_agent_task orch aid t))) = map fst (agents orch)"
proof (cases "map_of (agents orch) aid")
  case None
  then show ?thesis by (simp add: execute_agent_task_def)
next
  case (Some ag)
  assume reg: "aid \<in> set (map fst (agents orch))"
  obtain r ag' evs where p: "process_task ag t = (r, ag', evs)"
    by (cases "process_task ag t")
  show ?thesis
    using Some p reg
    by (simp add: execute_agent_task_def Let_def set_agent_status_def log_info_def
          callbacks_agents update_keys)
qed

lemma execute_agent_task_registered:
  assumes "aid \<in> set (map fst (agents orch))"
  shows "\<exists>r. fst (execute_agent_task orch aid t) = Inr r \<and> agent_dict r"
proof -
  obtain ag where ag: "map_of (agents orch) aid = Some ag"
    using assms by (cases "map_of (agents orch) aid") (auto simp: map_of_eq_None_iff)
  obtain r ag' evs where p: "process_task ag t = (r, ag', evs)"
    by (cases "process_task ag t")
  have "agent_dict r"
    using process_task_agent_dict [of ag t] p by simp
  then show ?thesis
    using ag p by (simp add: execute_agent_task_def Let_def)
qed

lemma gather_agent_dicts:
  "list_all (\<lambda>c. fst c \<in> set (map fst (agents orch))) cs \<Longrightarrow>
   list_all (\<lambda>outcome. case outcome of Inl e \<Rightarrow> False | Inr r \<Rightarrow> agent_dict r)
     (fst (gather orch cs))"
proof (induction cs arbitrary: orch)
  case Nil
  show ?case by simp
next
  case (Cons c cs)
  obtain aid t where c: "c = (aid, t)" by (cases c)
  have reg: "aid \<in> set (map fst (agents orch))"
    using Cons.prems c by simp
  have keys: "map fst (agents (snd (execute_agent_task orch aid t))) = map fst (agents orch)"
    by (rule execute_agent_task_keys [OF reg])
  have rest: "list_all (\<lambda>c. fst c \<in> set (map fst (agents (snd (execute_agent_task orch aid t))))) cs"
    using Cons.prems keys by simp
  obtain r where r: "fst (execute_agent_task orch aid t) = Inr r" "agent_dict r"
    using execute_agent_task_registered [OF reg] by blast
  show ?case
    unfolding c using Cons.IH [OF rest] r
    by (simp add: gather_Cons del: gather.simps)
qed

lemma task_coroutines_registered:
  "list_all (\<lambda>c. fst c \<in> set (map fst (agents orch))) (task_coroutines orch ts)"
proof (induction ts)
  case Nil
  show ?case by (simp add: task_coroutines_def)
next
  case (Cons t ts)
  show ?case
  proof (cases "resolve_agent orch (agent t)")
    case None
    then show ?thesis using Cons.IH by (simp add: task_coroutines_def)
  next
    case (Some aid)
    then show ?thesis
      using Cons.IH resolve_agent_registered [OF Some] by (simp add: task_coroutines_def)
  qed
qed

subsection \<open>What a dispatch writes to the log\<close>

lemma assigned_tasks_append:
  "assigned_tasks (xs @ ys) = assigned_tasks xs @ assigned_tasks ys"
  by (simp add: assigned_tasks_def)

lemma assigned_tasks_assignment:
  "assigned_tasks [Log_assigning_task tid nm] = [tid]"
  by (simp add: assigned_tasks_def)

lemma callback_assigned:
  "assigned_tasks (orchestrator_log (handle_agent_callback orch ev))
     = assigned_tasks (orchestrator_log orch)"
  by (cases ev) (simp_all add: log_info_def set_agent_status_def assigned_tasks_def)

lemma callbacks_assigned:
  "assigned_tasks (orchestrator_log (fold (\<lambda>ev oc. handle_agent_callback oc ev) evs orch))
     = assigned_tasks (orchestrator_log orch)"
  by (induction evs arbitrary: orch) (simp_all add: callback_assigned)

lemma execute_agent_task_assigned:
  "assigned_tasks (orchestrator_log (snd (execute_agent_task orch aid t)))
     = assigned_tasks (orchestrator_log orch)
         @ (case map_of (agents orch) aid of None \<Rightarrow> [] | Some ag \<Rightarrow> [task_id t])"
proof (cases "map_of (agents orch) aid")
  case None
  then show ?thesis by (simp add: execute_agent_task_def)
next
  case (Some ag)
  obtain r ag' evs where p: "process_task ag t = (r, ag', evs)"
    by (cases "process_task ag t")
  show ?thesis
    using Some p
    by (simp add: execute_agent_task_def Let_def set_agent_status_def log_info_def
          callbacks_assigned assigned_tasks_append assigned_tasks_assignment)
qed

lemma dependency_gate_closed:
  assumes deps: "dependencies B = [task_id A]"
    and failed: "case map_of results (task_id A) of None \<Rightarrow> True | Some r \<Rightarrow> \<not> success r"
  shows "sequential_loop orch (B # rest) results = (Inl (DependenciesNotMet (task_id B)), orch)"
  using failed by (simp add: check_task_dependencies_def deps split: option.splits)

section \<open>Deployment-level failure handling\<close>

text \<open>
  Claim C1 (a failure in any phase, a parallel phase with \<^verbatim>\<open>success = False\<close> included,
  aborts the deployment, and \<^verbatim>\<open>deploy_infrastructure\<close> returns a failure). The code
  does this for a sequential phase, whose loop raises on the first failed task. It does not
  for a parallel phase: \<^verbatim>\<open>execute_parallel_phase\<close> returns its dict with
  \<^verbatim>\<open>success = False\<close>, and \<^verbatim>\<open>execute_deployment_phases\<close> stores that dict without
  reading the flag. The theorem runs \<^verbatim>\<open>deploy_infrastructure\<close> on a valid request
  with services \<^verbatim>\<open>['n8n']\<close> and a team whose N8N agent raises on every call: the
  Services phase is recorded with \<^verbatim>\<open>success = False\<close>, the three later phases are
  started and complete, the returned dict has \<^verbatim>\<open>success = True\<close> and no error, and
  the final report inside it says \<^verbatim>\<open>success = False\<close>.
\<close>

theorem failed_parallel_phase_does_not_abort:
  "(let (r, orch') =
          deploy_infrastructure (example_team always_raises returns_done) ''dep-1'' named_request
    in (dr_success r, dr_error r,
        map_option (map (\<lambda>(k, p). (k, pr_success p))) (dr_result r),
        map_option fr_success (dr_final_report r),
        started_phases (orchestrator_log orch')))
   = (True, None,
      Some [(''infrastructure'', True), (''services'', False), (''configuration'', True),
            (''validation'', True), (''reporting'', True)],
      Some False,
      [''infrastructure'', ''services'', ''configuration'', ''validation'', ''reporting''])"
  by code_simp

section \<open>The end-to-end scenario\<close>

text \<open>
  Claim C2, first part (validation of the scenario request passes, only domain, email
  and server IP being required). \<^verbatim>\<open>process_client_data\<close> requires
  \<^verbatim>\<open>project_name\<close> as well, so the request is rejected.
\<close>

theorem scenario_request_fails_validation:
  "process_client_data scenario_request = Inl (MissingRequiredFields [''project_name''])"
  by (simp add: process_client_data_def scenario_request_def py_get_def py_get_default_def)

text \<open>
  Claim C2 as the code has it. The scenario request fails validation with the one missing
  field \<^verbatim>\<open>project_name\<close>, and passes once a project name is added. For every
  orchestrator, \<^verbatim>\<open>deploy_infrastructure\<close> on the scenario request returns
  \<^verbatim>\<open>success = False\<close> with that error, and \<^verbatim>\<open>phase_at_failure\<close> is the phase
  the orchestrator was in before the call (\<^verbatim>\<open>initialization\<close> on a new one).
  \<^verbatim>\<open>create_master_execution_plan\<close>, which does not validate, returns for the
  scenario request a plan of exactly five phases, in the order infrastructure, services,
  configuration, validation, reporting, whose Services phase holds the one task
  \<^verbatim>\<open>n8n_deployment\<close>. What a raising N8N capability does to the deployment is not
  part of this statement.
\<close>

theorem scenario_request_validation_and_plan:
  "process_client_data scenario_request = Inl (MissingRequiredFields [''project_name''])
   \<and> process_client_data named_request =
       Inr [(''domain'', PStr ''example.com''), (''email'', PStr ''a@example.com''),
            (''project_name'', PStr ''demo''), (''client_name'', PNone),
            (''server_ip'', PStr ''10.0.0.5''), (''ssh_credentials'', PDict []),
            (''cloudflare_token'', PNone), (''services'', PList [PStr ''n8n'']),
            (''configuration'', PDict [])]
   \<and> dr_success (fst (deploy_infrastructure orch did scenario_request)) = False
   \<and> dr_error (fst (deploy_infrastructure orch did scenario_request))
       = Some (MissingRequiredFields [''project_name''])
   \<and> map_option phase_at_failure
         (dr_error_report (fst (deploy_infrastructure orch did scenario_request)))
       = Some (phase_value (current_phase orch))
   \<and> (case create_master_execution_plan scenario_request of
         Inl e \<Rightarrow> False
       | Inr p \<Rightarrow>
           length (phases p) = 5
         \<and> map phase (phases p) =
             [Phase_INFRASTRUCTURE, Phase_SERVICES, Phase_CONFIGURATION, Phase_VALIDATION,
              Phase_REPORTING]
         \<and> map (\<lambda>pc. map task_id (tasks pc)) (phases p) =
             [[''base_server_setup''], [''n8n_deployment''],
              [''dns_configuration'', ''proxy_configuration''], [''system_validation''],
              [''final_report'']])"
proof -
  have rejected:
    "process_client_data scenario_request = Inl (MissingRequiredFields [''project_name''])"
    by (simp add: process_client_data_def scenario_request_def py_get_def py_get_default_def)
  have accepted:
    "process_client_data named_request =
       Inr [(''domain'', PStr ''example.com''), (''email'', PStr ''a@example.com''),
            (''project_name'', PStr ''demo''), (''client_name'', PNone),
            (''server_ip'', PStr ''10.0.0.5''), (''ssh_credentials'', PDict []),
            (''cloudflare_token'', PNone), (''services'', PList [PStr ''n8n'']),
            (''configuration'', PDict [])]"
    by (simp add: process_client_data_def named_request_def scenario_request_def py_get_def
          py_get_default_def)
  have deploy:
    "dr_success (fst (deploy_infrastructure orch did scenario_request)) = False
     \<and> dr_error (fst (deploy_infrastructure orch did scenario_request))
         = Some (MissingRequiredFields [''project_name''])
     \<and> map_option phase_at_failure
           (dr_error_report (fst (deploy_infrastructure orch did scenario_request)))
         = Some (phase_value (current_phase orch))"
    by (simp add: deploy_infrastructure_def deploy_attempt_def initialize_deployment_def
          rejected Let_def orch_read_time_def log_info_def handle_deployment_failure_def)
  have plan:
    "case create_master_execution_plan scenario_request of
       Inl e \<Rightarrow> False
     | Inr p \<Rightarrow>
         length (phases p) = 5
       \<and> map phase (phases p) =
           [Phase_INFRASTRUCTURE, Phase_SERVICES, Phase_CONFIGURATION, Phase_VALIDATION,
            Phase_REPORTING]
       \<and> map (\<lambda>pc. map task_id (tasks pc)) (phases p) =
           [[''base_server_setup''], [''n8n_deployment''],
            [''dns_configuration'', ''proxy_configuration''], [''system_validation''],
            [''final_report'']]"
    by code_simp
  show ?thesis using rejected accepted deploy plan by blast
qed

section \<open>Agent resolution\<close>

text \<open>
  Claim C3 (a task whose agent name resolves to no registered agent is a hard failure
  with a "no agent found" error in a sequential and in a parallel phase, and is recorded
  rather than skipped). \<^verbatim>\<open>execute_sequential_phase\<close> raises
  \<^verbatim>\<open>No agent found for type ...\<close>. \<^verbatim>\<open>execute_parallel_phase\<close> creates no
  coroutine for such a task and raises nothing. The theorem runs both on an orchestrator
  with no agent registered and the one task \<^verbatim>\<open>n8n_deployment\<close>: the sequential phase
  raises; the parallel phase returns \<^verbatim>\<open>success = True\<close> with an empty result dict
  and dispatches nothing. With only the Supabase agent registered and both service tasks
  in the phase, the one gathered result, that of the Supabase task, is stored under the id
  \<^verbatim>\<open>n8n_deployment\<close>, the first task of the list, and the phase reports success.
\<close>

theorem unresolved_task_skipped_in_parallel_phase:
  "fst (execute_sequential_phase example_orchestrator ''dep-1'' (n8n_only_phase False))
     = Inl (NoAgentFound ''n8n_agent'')
   \<and> fst (execute_parallel_phase example_orchestrator ''dep-1'' (n8n_only_phase True))
     = Inr \<lparr>pr_phase = ''services'', pr_parallel_execution = True, pr_task_results = [],
            pr_success = True\<rparr>
   \<and> orchestrator_log (snd (execute_parallel_phase example_orchestrator ''dep-1''
                               (n8n_only_phase True))) = []
   \<and> (case fst (execute_parallel_phase supabase_only_team ''dep-1'' two_services_phase) of
         Inl e \<Rightarrow> False
       | Inr pr \<Rightarrow>
           pr_success pr
         \<and> map (\<lambda>(k, r). (k, map_option report_task_id (report r))) (pr_task_results pr)
             = [(''n8n_deployment'', Some ''supabase_deployment'')])"
  by code_simp

section \<open>Validation of an execution result\<close>

text \<open>
  Claim C4 (when no step succeeded, the validation is invalid and its error list holds
  \<^verbatim>\<open>No steps were executed successfully\<close> also after the agent-specific validation
  is merged in; the merge never overrides the base lists). \<^verbatim>\<open>validate_execution\<close>
  appends that message and then calls \<^verbatim>\<open>validation.update(agent_validation)\<close>, which
  replaces the list \<^verbatim>\<open>errors\<close> by the one the hook returns. With the hook of
  \<^verbatim>\<open>BaseAgent\<close> itself the result for an execution without a successful step has
  \<^verbatim>\<open>valid = False\<close> and an empty error list; with a hook that returns
  \<^verbatim>\<open>valid: True\<close> the same execution is reported valid.
\<close>

theorem base_validation_error_overwritten:
  "validate_execution base_perform_agent_validation no_step_succeeded =
     \<lparr>valid = False, errors = [], warnings = [], checks_performed = [''basic_validation'']\<rparr>
   \<and> valid (validate_execution approving_hook no_step_succeeded)"
  by (simp add: validate_execution_def base_perform_agent_validation_def approving_hook_def
        no_step_succeeded_def dict_update_def)

section \<open>The boundary of \<^verbatim>\<open>process_task\<close>\<close>

text \<open>
  Claim C5. For every task and every behaviour of the capability (each invocation
  returns or raises an \<^verbatim>\<open>Exception\<close>), \<^verbatim>\<open>process_task\<close> returns exactly one of
  the success-shaped dict (\<^verbatim>\<open>success: True\<close>, \<^verbatim>\<open>result\<close>, \<^verbatim>\<open>report\<close>,
  \<^verbatim>\<open>execution_time\<close>) and the failure-shaped dict (\<^verbatim>\<open>success: False\<close>,
  \<^verbatim>\<open>error\<close>, \<^verbatim>\<open>error_report\<close>, \<^verbatim>\<open>execution_time\<close>). Every raise site of the
  life cycle lies inside the \<^verbatim>\<open>try\<close> block, whose handler builds the failure-shaped
  dict, so no exception passes the boundary. The callback is the one the orchestrator
  installs, or none.
\<close>

theorem process_task_result_shape:
  "\<exists>elapsed r rep e er.
     fst (process_task ag t) =
       \<lparr>success = True, result = Some r, report = Some rep, error = None,
        error_report = None, execution_time = Some elapsed\<rparr>
   \<or> fst (process_task ag t) =
       \<lparr>success = False, result = None, report = None, error = Some e,
        error_report = Some er, execution_time = Some elapsed\<rparr>"
  by (auto simp: process_task_def Let_def split: prod.splits sum.splits)

theorem process_task_result_shape_witness:
  "\<exists>elapsed r rep e er.
     fst (process_task (example_agent ''n8n_deployment'' ''N8N Deployment Agent'' always_raises)
            (n8n_task named_request)) =
       \<lparr>success = True, result = Some r, report = Some rep, error = None,
        error_report = None, execution_time = Some elapsed\<rparr>
   \<or> fst (process_task (example_agent ''n8n_deployment'' ''N8N Deployment Agent'' always_raises)
            (n8n_task named_request)) =
       \<lparr>success = False, result = None, report = None, error = Some e,
        error_report = Some er, execution_time = Some elapsed\<rparr>"
  by (rule process_task_result_shape)

section \<open>Dependency gating in a sequential phase\<close>

text \<open>
  Claim C6. Let a sequential phase have the tasks \<open>[A, B]\<close> with
  \<^verbatim>\<open>B.dependencies = [A.id]\<close>. If the result recorded for \<open>A\<close> has
  \<^verbatim>\<open>success = False\<close>, or \<open>A\<close> raised before a result was recorded, then the phase
  raises (it returns no phase result, so nothing is awarded for the part that ran), and
  at most one task was handed to an agent during the phase, namely \<open>A\<close>: \<open>B\<close> is never
  dispatched. The exception is \<^verbatim>\<open>Task A failed: ...\<close> for a recorded failure, and
  \<^verbatim>\<open>Dependencies not met for task A\<close>, \<^verbatim>\<open>No agent found for type ...\<close> or
  \<^verbatim>\<open>Agent ... not found\<close> when nothing was recorded. The gate itself is also
  closed in every state the loop could reach \<open>B\<close> in: whenever the collected results
  hold no entry for \<open>A\<close>, or a failed one, the loop raises
  \<^verbatim>\<open>Dependencies not met for task B\<close> and leaves the orchestrator untouched.
\<close>

theorem dependency_gating:
  assumes pc: "tasks pc = [A, B]"
    and deps: "dependencies B = [task_id A]"
    and failed: "case recorded_result orch A of None \<Rightarrow> True | Some r \<Rightarrow> \<not> success r"
  shows "(fst (execute_sequential_phase orch did pc) = Inl (DependenciesNotMet (task_id A))
          \<or> fst (execute_sequential_phase orch did pc) = Inl (NoAgentFound (agent A))
          \<or> (\<exists>aid. fst (execute_sequential_phase orch did pc) = Inl (AgentNotFound aid))
          \<or> (\<exists>e. fst (execute_sequential_phase orch did pc) = Inl (TaskFailed (task_id A) e)))
       \<and> (assigned_tasks (orchestrator_log (snd (execute_sequential_phase orch did pc)))
            = assigned_tasks (orchestrator_log orch)
          \<or> assigned_tasks (orchestrator_log (snd (execute_sequential_phase orch did pc)))
            = assigned_tasks (orchestrator_log orch) @ [task_id A])
       \<and> (\<forall>results rest.
             (case map_of results (task_id A) of None \<Rightarrow> True | Some r \<Rightarrow> \<not> success r)
             \<longrightarrow> sequential_loop orch (B # rest) results
                   = (Inl (DependenciesNotMet (task_id B)), orch))"
proof -
  have gate: "\<forall>results rest.
             (case map_of results (task_id A) of None \<Rightarrow> True | Some r \<Rightarrow> \<not> success r)
             \<longrightarrow> sequential_loop orch (B # rest) results
                   = (Inl (DependenciesNotMet (task_id B)), orch)"
    using dependency_gate_closed [OF deps] by blast
  show ?thesis
  proof (cases "check_task_dependencies A []")
    case False
    then have "execute_sequential_phase orch did pc = (Inl (DependenciesNotMet (task_id A)), orch)"
      by (simp add: execute_sequential_phase_def pc)
    then show ?thesis using gate by simp
  next
    case True
    show ?thesis
    proof (cases "resolve_agent orch (agent A)")
      case None
      then have "execute_sequential_phase orch did pc = (Inl (NoAgentFound (agent A)), orch)"
        using True by (simp add: execute_sequential_phase_def pc)
      then show ?thesis using gate by simp
    next
      case (Some aid)
      obtain out orch1 where ex: "execute_agent_task orch aid A = (out, orch1)"
        by (cases "execute_agent_task orch aid A")
      have log1: "assigned_tasks (orchestrator_log orch1)
                    = assigned_tasks (orchestrator_log orch)
                        @ (case map_of (agents orch) aid of None \<Rightarrow> [] | Some ag \<Rightarrow> [task_id A])"
        using execute_agent_task_assigned [of orch aid A] ex by simp
      show ?thesis
      proof (cases out)
        case (Inl e)
        have "e = AgentNotFound aid"
          using ex Inl
          by (auto simp: execute_agent_task_def Let_def split: option.splits prod.splits)
        then have "execute_sequential_phase orch did pc = (Inl (AgentNotFound aid), orch1)"
          using True Some ex Inl by (simp add: execute_sequential_phase_def pc)
        then show ?thesis using gate log1 by (auto split: option.splits)
      next
        case (Inr r)
        then have "\<not> success r"
          using failed True Some ex by (simp add: recorded_result_def)
        then have "execute_sequential_phase orch did pc =
            (Inl (TaskFailed (task_id A)
                    (case error r of None \<Rightarrow> UnknownError | Some e \<Rightarrow> e)), orch1)"
          using True Some ex Inr by (simp add: execute_sequential_phase_def pc)
        then show ?thesis using gate log1 by (auto split: option.splits)
      qed
    qed
  qed
qed

text \<open>The Configuration phase of a plan, run by a team whose DNS agent raises on every
  call: the DNS task is dispatched and fails, the proxy task that depends on it is not
  dispatched, and the phase raises.\<close>

theorem dependency_gating_witness:
  "fst (execute_sequential_phase (example_team returns_done always_raises) ''dep-1''
          (plan_configuration_phase named_request))
     = Inl (TaskFailed ''dns_configuration''
              (StepNotRecovered 1 (CapabilityError ''connection refused'')))
   \<and> assigned_tasks (orchestrator_log (snd (execute_sequential_phase
         (example_team returns_done always_raises) ''dep-1''
         (plan_configuration_phase named_request))))
       = [''dns_configuration'']"
proof -
  let ?orch = "example_team returns_done always_raises"
  let ?pc = "plan_configuration_phase named_request"
  have pc: "tasks ?pc = [dns_task named_request, proxy_task named_request]"
    by (simp add: plan_configuration_phase_def)
  have deps: "dependencies (proxy_task named_request) = [task_id (dns_task named_request)]"
    by (simp add: proxy_task_def dns_task_def)
  have failed: "case recorded_result ?orch (dns_task named_request) of
                  None \<Rightarrow> True | Some r \<Rightarrow> \<not> success r"
    by code_simp
  have before: "assigned_tasks (orchestrator_log ?orch) = []"
    by code_simp
  have dispatched: "assigned_tasks (orchestrator_log (snd (execute_sequential_phase ?orch ''dep-1'' ?pc)))
                      \<noteq> []"
    by code_simp
  have raised: "fst (execute_sequential_phase ?orch ''dep-1'' ?pc)
                  = Inl (TaskFailed ''dns_configuration''
                           (StepNotRecovered 1 (CapabilityError ''connection refused'')))"
    by code_simp
  have tid: "task_id (dns_task named_request) = ''dns_configuration''"
    by (simp add: dns_task_def)
  show ?thesis
    using dependency_gating [OF pc deps failed, of "''dep-1''"] before dispatched tid raised
    by auto
qed

section \<open>Fan-in of a parallel phase\<close>

text \<open>
  Claim C7. Let every task of a parallel phase resolve to an agent, and let the task ids
  be distinct (as the data model requires). Then the phase returns a result dict, and
  \<^item> the gathered outcomes are one per task, in task order;
  \<^item> every outcome is a dict an agent returned, of one of the two shapes of
    \<^verbatim>\<open>process_task\<close>: no dispatch raises, and a task that failed has
    \<^verbatim>\<open>success: False\<close> together with an \<^verbatim>\<open>error\<close>;
  \<^item> the per-task result map has the task ids as its keys, in task order, and the entry
    of a task is the dict its agent returned, unchanged, so that a successful sibling
    keeps its successful result;
  \<^item> the \<^verbatim>\<open>success\<close> flag of the phase is the conjunction of the
    \<^verbatim>\<open>success\<close> flags of all tasks.
  The second loop of the phase does the same for every list of outcomes of the right
  length, exceptions included: an exception \<open>e\<close> is stored as
  \<^verbatim>\<open>{success: False, error: e}\<close> under the id of its task, counts as a failure in
  the conjunction, and leaves the entries of the other tasks as they are.
\<close>

theorem parallel_phase_fan_in:
  assumes resolve: "list_all (\<lambda>t. resolve_agent orch (agent t) \<noteq> None) (tasks pc)"
    and ids: "distinct (map task_id (tasks pc))"
  shows "(\<exists>pr. fst (execute_parallel_phase orch did pc) = Inr pr
           \<and> (let outcomes = fst (gather orch (task_coroutines orch (tasks pc)))
              in length outcomes = length (tasks pc)
               \<and> map snd (task_coroutines orch (tasks pc)) = tasks pc
               \<and> list_all (\<lambda>outcome. case outcome of Inl e \<Rightarrow> False | Inr r \<Rightarrow> agent_dict r)
                    outcomes
               \<and> pr_task_results pr =
                   zip (map task_id (tasks pc))
                     (map (\<lambda>outcome. case outcome of
                             Inl e \<Rightarrow> \<lparr>success = False, result = None, report = None,
                                       error = Some e, error_report = None,
                                       execution_time = None\<rparr>
                           | Inr r \<Rightarrow> r) outcomes)
               \<and> pr_success pr =
                   list_all (\<lambda>outcome. case outcome of Inl e \<Rightarrow> False | Inr r \<Rightarrow> success r)
                     outcomes))
       \<and> (\<forall>outcomes. length outcomes = length (tasks pc) \<longrightarrow>
             collect_results (tasks pc) outcomes =
               zip (map task_id (tasks pc))
                 (map (\<lambda>outcome. case outcome of
                         Inl e \<Rightarrow> \<lparr>success = False, result = None, report = None,
                                   error = Some e, error_report = None,
                                   execution_time = None\<rparr>
                       | Inr r \<Rightarrow> r) outcomes)
             \<and> list_all success (map snd (collect_results (tasks pc) outcomes)) =
                 list_all (\<lambda>outcome. case outcome of Inl e \<Rightarrow> False | Inr r \<Rightarrow> success r)
                   outcomes)"
proof -
  let ?stored = "\<lambda>outcome. case outcome of
                   Inl e \<Rightarrow> \<lparr>success = False, result = None, report = None,
                             error = Some e, error_report = None, execution_time = None\<rparr>
                 | Inr r \<Rightarrow> r"
  let ?ok = "\<lambda>outcome. case outcome of Inl e \<Rightarrow> False | Inr r \<Rightarrow> success r"
  have stored: "outcome_result = ?stored"
    by (rule ext) (simp add: exception_result_def split: sum.splits)
  have flag: "list_all success (map ?stored os) = list_all ?ok os" for os
    by (induction os) (auto split: sum.splits)
  have general: "collect_results (tasks pc) os = zip (map task_id (tasks pc)) (map ?stored os)
      \<and> list_all success (map snd (collect_results (tasks pc) os)) = list_all ?ok os"
    if len: "length os = length (tasks pc)" for os
  proof -
    have "collect_results (tasks pc) os = zip (map task_id (tasks pc)) (map outcome_result os)"
      using collect_results_distinct [OF len [symmetric] ids] .
    then have col: "collect_results (tasks pc) os
                      = zip (map task_id (tasks pc)) (map ?stored os)"
      by (simp only: stored)
    have vals: "map snd (zip (map task_id (tasks pc)) (map ?stored os)) = map ?stored os"
      using len by simp
    have "list_all success (map snd (collect_results (tasks pc) os)) = list_all ?ok os"
      by (simp only: col vals flag)
    then show ?thesis using col by (rule_tac conjI)
  qed
  let ?os = "fst (gather orch (task_coroutines orch (tasks pc)))"
  have len: "length ?os = length (tasks pc)"
    by (simp add: gather_length task_coroutines_length [OF resolve])
  have dicts: "list_all (\<lambda>outcome. case outcome of Inl e \<Rightarrow> False | Inr r \<Rightarrow> agent_dict r) ?os"
    by (rule gather_agent_dicts [OF task_coroutines_registered])
  define pr where "pr =
     \<lparr>pr_phase = phase_value (phase pc), pr_parallel_execution = True,
      pr_task_results = collect_results (tasks pc) ?os,
      pr_success = list_all success (map snd (collect_results (tasks pc) ?os))\<rparr>"
  have ret: "fst (execute_parallel_phase orch did pc) = Inr pr"
    by (simp add: pr_def execute_parallel_phase_result)
  have entries: "pr_task_results pr = zip (map task_id (tasks pc)) (map ?stored ?os)"
    using general [OF len, THEN conjunct1] by (simp add: pr_def)
  have flagged: "pr_success pr = list_all ?ok ?os"
    using general [OF len, THEN conjunct2] by (simp add: pr_def)
  have cors: "map snd (task_coroutines orch (tasks pc)) = tasks pc"
    by (rule task_coroutines_tasks [OF resolve])
  have first: "\<exists>pr. fst (execute_parallel_phase orch did pc) = Inr pr
           \<and> (let outcomes = ?os
              in length outcomes = length (tasks pc)
               \<and> map snd (task_coroutines orch (tasks pc)) = tasks pc
               \<and> list_all (\<lambda>outcome. case outcome of Inl e \<Rightarrow> False | Inr r \<Rightarrow> agent_dict r)
                    outcomes
               \<and> pr_task_results pr = zip (map task_id (tasks pc)) (map ?stored outcomes)
               \<and> pr_success pr = list_all ?ok outcomes)"
    by (rule exI [of _ pr]) (simp only: Let_def ret len cors dicts entries flagged simp_thms)
  show ?thesis using first general by blast
qed

text \<open>Three tasks for three registered agents, the second of which raises on every
  call: the phase reports failure, and the map holds all three entries, the first and the
  third successful and without error, the second failed and with an error. The same three
  tasks with an exception as second outcome: the exception is stored as a failed entry
  between the two dicts.\<close>

theorem parallel_phase_fan_in_witness:
  "(\<exists>pr. fst (execute_parallel_phase fan_team ''dep-1'' fan_phase) = Inr pr
     \<and> map fst (pr_task_results pr) = [''task_1'', ''task_2'', ''task_3'']
     \<and> map (\<lambda>(k, r). (success r, error r = None)) (pr_task_results pr)
         = [(True, True), (False, False), (True, True)]
     \<and> pr_success pr = False)
   \<and> collect_results (tasks fan_phase)
        [Inr (fst (process_task (example_agent ''alpha'' ''Alpha Agent'' returns_done)
                     (fan_task ''task_1'' ''alpha''))),
         Inl (AgentNotFound ''beta''),
         Inr (fst (process_task (example_agent ''gamma'' ''Gamma Agent'' returns_done)
                     (fan_task ''task_3'' ''gamma'')))]
     = [(''task_1'', fst (process_task (example_agent ''alpha'' ''Alpha Agent'' returns_done)
                           (fan_task ''task_1'' ''alpha''))),
        (''task_2'', \<lparr>success = False, result = None, report = None,
                      error = Some (AgentNotFound ''beta''), error_report = None,
                      execution_time = None\<rparr>),
        (''task_3'', fst (process_task (example_agent ''gamma'' ''Gamma Agent'' returns_done)
                           (fan_task ''task_3'' ''gamma'')))]"
proof -
  let ?os = "fst (gather fan_team (task_coroutines fan_team (tasks fan_phase)))"
  let ?stored = "\<lambda>outcome. case outcome of
                   Inl e \<Rightarrow> \<lparr>success = False, result = None, report = None,
                             error = Some e, error_report = None, execution_time = None\<rparr>
                 | Inr r \<Rightarrow> r"
  have resolve: "list_all (\<lambda>t. resolve_agent fan_team (agent t) \<noteq> None) (tasks fan_phase)"
    by code_simp
  have ids: "distinct (map task_id (tasks fan_phase))"
    by (simp add: fan_phase_def fan_task_def)
  have flags: "map (\<lambda>outcome. (success (?stored outcome), error (?stored outcome) = None)) ?os
                 = [(True, True), (False, False), (True, True)]"
    by code_simp
  have keys: "map task_id (tasks fan_phase) = [''task_1'', ''task_2'', ''task_3'']"
    by (simp add: fan_phase_def fan_task_def)
  note fan = parallel_phase_fan_in [OF resolve ids, of "''dep-1''"]
  obtain pr where pr: "fst (execute_parallel_phase fan_team ''dep-1'' fan_phase) = Inr pr"
    and len: "length ?os = length (tasks fan_phase)"
    and res: "pr_task_results pr = zip (map task_id (tasks fan_phase)) (map ?stored ?os)"
    and suc: "pr_success pr
                = list_all (\<lambda>outcome. case outcome of Inl e \<Rightarrow> False | Inr r \<Rightarrow> success r) ?os"
    using fan by (auto simp: Let_def)
  define os where "os = ?os"
  have "length os = 3"
    using len by (simp add: os_def fan_phase_def)
  then obtain o1 o2 o3 where three: "os = [o1, o2, o3]"
    by (auto simp: length_Suc_conv numeral_3_eq_3)
  have flags': "[(success (?stored o1), error (?stored o1) = None),
                 (success (?stored o2), error (?stored o2) = None),
                 (success (?stored o3), error (?stored o3) = None)]
                  = [(True, True), (False, False), (True, True)]"
    using flags three by (simp add: os_def [symmetric])
  have res': "pr_task_results pr =
                [(''task_1'', ?stored o1), (''task_2'', ?stored o2), (''task_3'', ?stored o3)]"
    using res keys three by (simp add: os_def [symmetric])
  have suc': "pr_success pr =
                (success (?stored o1) \<and> success (?stored o2) \<and> success (?stored o3))"
    using suc three by (simp add: os_def [symmetric] split: sum.splits)
  have k: "map fst (pr_task_results pr) = [''task_1'', ''task_2'', ''task_3'']"
    using res' by simp
  have v: "map (\<lambda>(k, r). (success r, error r = None)) (pr_task_results pr)
             = [(True, True), (False, False), (True, True)]"
    using res' flags' by simp
  have s: "pr_success pr = False"
    using suc' flags' by simp
  have a: "\<exists>pr. fst (execute_parallel_phase fan_team ''dep-1'' fan_phase) = Inr pr
     \<and> map fst (pr_task_results pr) = [''task_1'', ''task_2'', ''task_3'']
     \<and> map (\<lambda>(k, r). (success r, error r = None)) (pr_task_results pr)
         = [(True, True), (False, False), (True, True)]
     \<and> pr_success pr = False"
    by (rule exI [of _ pr]) (simp only: pr k v s simp_thms)
  have b: "collect_results (tasks fan_phase)
        [Inr (fst (process_task (example_agent ''alpha'' ''Alpha Agent'' returns_done)
                     (fan_task ''task_1'' ''alpha''))),
         Inl (AgentNotFound ''beta''),
         Inr (fst (process_task (example_agent ''gamma'' ''Gamma Agent'' returns_done)
                     (fan_task ''task_3'' ''gamma'')))]
     = [(''task_1'', fst (process_task (example_agent ''alpha'' ''Alpha Agent'' returns_done)
                           (fan_task ''task_1'' ''alpha''))),
        (''task_2'', \<lparr>success = False, result = None, report = None,
                      error = Some (AgentNotFound ''beta''), error_report = None,
                      execution_time = None\<rparr>),
        (''task_3'', fst (process_task (example_agent ''gamma'' ''Gamma Agent'' returns_done)
                           (fan_task ''task_3'' ''gamma'')))]"
  proof -
    have l: "length (tasks fan_phase) = 3"
      by (simp add: fan_phase_def)
    show ?thesis
      using fan [THEN conjunct2, rule_format,
                 of "[Inr (fst (process_task (example_agent ''alpha'' ''Alpha Agent'' returns_done)
                                 (fan_task ''task_1'' ''alpha''))),
                      Inl (AgentNotFound ''beta''),
                      Inr (fst (process_task (example_agent ''gamma'' ''Gamma Agent'' returns_done)
                                 (fan_task ''task_3'' ''gamma'')))]"]
        l keys
      by simp
  qed
  show ?thesis using a b by (rule conjI)
qed

section \<open>Recovery of a failed step\<close>

text \<open>
  A step whose first execution raises \<open>e1\<close>. Exactly one recovery is attempted: one
  \<^verbatim>\<open>asyncio.sleep(5)\<close> and one more call of the capability with the parameters of
  the same step (two calls in all).
  \<^item> If the retry raises too, the task fails with the error
    \<^verbatim>\<open>Step 1 failed and could not be recovered: e1\<close>; for a plan with further steps
    after the failing one the loop stops there, in the state reached after the two
    calls, whatever the remaining steps are.
  \<^item> If the retry returns \<open>v\<close>, the loop goes on with the remaining steps, the entry of
    the step in the list of step results being \<^verbatim>\<open>success: True, recovered: True\<close>
    with result \<open>v\<close>; for the one-step plan \<^verbatim>\<open>process_task\<close> builds, the task then
    returns \<^verbatim>\<open>success: True\<close> with that one entry, provided the validation hook of the
    agent does not set \<^verbatim>\<open>valid\<close> to false and the two clock readings that measure the
    step differ.
\<close>

lemma step_recovery_once:
  assumes first: "capability ag (calls ag) (parameters t) = Inl e1"
  shows "(\<forall>e2. capability ag (Suc (calls ag)) (parameters t) = Inl e2 \<longrightarrow>
            success (fst (process_task ag t)) = False
          \<and> error (fst (process_task ag t)) = Some (StepNotRecovered 1 e1)
          \<and> calls (fst (snd (process_task ag t))) = calls ag + 2
          \<and> sleeps (fst (snd (process_task ag t))) = sleeps ag @ [5])
       \<and> (\<forall>v. capability ag (Suc (calls ag)) (parameters t) = Inr v \<longrightarrow>
            calls (fst (snd (process_task ag t))) = calls ag + 2
          \<and> sleeps (fst (snd (process_task ag t))) = sleeps ag @ [5]
          \<and> ((\<forall>r. upd_valid (perform_agent_validation ag r) \<noteq> Some False)
              \<and> time_source ag (time_reads ag + 2) \<noteq> time_source ag (time_reads ag + 1)
              \<longrightarrow> success (fst (process_task ag t))
                \<and> (\<exists>r d. result (fst (process_task ag t)) = Some r
                      \<and> step_results r =
                          [\<lparr>sr_step_id = 1, sr_success = True, sr_result = Some v,
                            sr_error = None, sr_duration = d, sr_recovered = Some True\<rparr>])))
       \<and> (\<forall>s ss acc e2.
            step_function s = ''execute_primary_function''
            \<and> step_parameters s = parameters t
            \<and> capability ag (Suc (calls ag)) (parameters t) = Inl e2
            \<longrightarrow> monitor_steps ag (s # ss) acc =
                  (Inl (StepNotRecovered (step_id s) e1),
                   ag\<lparr>time_reads := time_reads ag + 2, sleeps := sleeps ag @ [5],
                      calls := calls ag + 2\<rparr>))
       \<and> (\<forall>s ss acc v.
            step_function s = ''execute_primary_function''
            \<and> step_parameters s = parameters t
            \<and> capability ag (Suc (calls ag)) (parameters t) = Inr v
            \<longrightarrow> monitor_steps ag (s # ss) acc =
                  monitor_steps
                    (ag\<lparr>time_reads := time_reads ag + 2, sleeps := sleeps ag @ [5],
                        calls := calls ag + 2\<rparr>) ss
                    (acc @ [\<lparr>sr_step_id = step_id s, sr_success = True, sr_result = Some v,
                              sr_error = None,
                              sr_duration = time_source ag (Suc (time_reads ag))
                                              - time_source ag (time_reads ag),
                              sr_recovered = Some True\<rparr>]))"
proof -
  have a: "\<forall>e2. capability ag (Suc (calls ag)) (parameters t) = Inl e2 \<longrightarrow>
            success (fst (process_task ag t)) = False
          \<and> error (fst (process_task ag t)) = Some (StepNotRecovered 1 e1)
          \<and> calls (fst (snd (process_task ag t))) = calls ag + 2
          \<and> sleeps (fst (snd (process_task ag t))) = sleeps ag @ [5]"
    using process_task_unrecovered [OF first] by blast
  have b: "\<forall>v. capability ag (Suc (calls ag)) (parameters t) = Inr v \<longrightarrow>
            calls (fst (snd (process_task ag t))) = calls ag + 2
          \<and> sleeps (fst (snd (process_task ag t))) = sleeps ag @ [5]
          \<and> ((\<forall>r. upd_valid (perform_agent_validation ag r) \<noteq> Some False)
              \<and> time_source ag (time_reads ag + 2) \<noteq> time_source ag (time_reads ag + 1)
              \<longrightarrow> success (fst (process_task ag t))
                \<and> (\<exists>r d. result (fst (process_task ag t)) = Some r
                      \<and> step_results r =
                          [\<lparr>sr_step_id = 1, sr_success = True, sr_result = Some v,
                            sr_error = None, sr_duration = d, sr_recovered = Some True\<rparr>]))"
    using process_task_recovered_effects [OF first] process_task_recovered_success [OF first]
    by blast
  have c: "\<forall>s ss acc e2.
            step_function s = ''execute_primary_function''
            \<and> step_parameters s = parameters t
            \<and> capability ag (Suc (calls ag)) (parameters t) = Inl e2
            \<longrightarrow> monitor_steps ag (s # ss) acc =
                  (Inl (StepNotRecovered (step_id s) e1),
                   ag\<lparr>time_reads := time_reads ag + 2, sleeps := sleeps ag @ [5],
                      calls := calls ag + 2\<rparr>)"
    using first monitor_steps_unrecovered by simp
  have d: "\<forall>s ss acc v.
            step_function s = ''execute_primary_function''
            \<and> step_parameters s = parameters t
            \<and> capability ag (Suc (calls ag)) (parameters t) = Inr v
            \<longrightarrow> monitor_steps ag (s # ss) acc =
                  monitor_steps
                    (ag\<lparr>time_reads := time_reads ag + 2, sleeps := sleeps ag @ [5],
                        calls := calls ag + 2\<rparr>) ss
                    (acc @ [\<lparr>sr_step_id = step_id s, sr_success = True, sr_result = Some v,
                              sr_error = None,
                              sr_duration = time_source ag (Suc (time_reads ag))
                                              - time_source ag (time_reads ag),
                              sr_recovered = Some True\<rparr>])"
    using first monitor_steps_recovered by simp
  show ?thesis using a b c d by blast
qed

text \<open>An agent whose capability raises on its first call only: the task succeeds after
  two calls and one sleep of five seconds, with the recovered step in its result.\<close>

lemma step_recovery_once_example:
  "success (fst (process_task
      (example_agent ''n8n_deployment'' ''N8N Deployment Agent'' raises_once)
      (n8n_task named_request)))
   \<and> calls (fst (snd (process_task
      (example_agent ''n8n_deployment'' ''N8N Deployment Agent'' raises_once)
      (n8n_task named_request)))) = 2
   \<and> sleeps (fst (snd (process_task
      (example_agent ''n8n_deployment'' ''N8N Deployment Agent'' raises_once)
      (n8n_task named_request)))) = [5]
   \<and> (\<exists>r d. result (fst (process_task
          (example_agent ''n8n_deployment'' ''N8N Deployment Agent'' raises_once)
          (n8n_task named_request))) = Some r
        \<and> step_results r =
            [\<lparr>sr_step_id = 1, sr_success = True, sr_result = Some (PStr ''done''),
              sr_error = None, sr_duration = d, sr_recovered = Some True\<rparr>])"
proof -
  let ?ag = "example_agent ''n8n_deployment'' ''N8N Deployment Agent'' raises_once"
  let ?t = "n8n_task named_request"
  have first: "capability ?ag (calls ?ag) (parameters ?t)
                 = Inl (CapabilityError ''connection reset'')"
    by (simp add: example_agent_def raises_once_def)
  have second: "capability ?ag (Suc (calls ?ag)) (parameters ?t) = Inr (PStr ''done'')"
    by (simp add: example_agent_def raises_once_def)
  have hook: "\<forall>r. upd_valid (perform_agent_validation ?ag r) \<noteq> Some False"
    by (simp add: example_agent_def base_perform_agent_validation_def)
  have clock: "time_source ?ag (time_reads ?ag + 2) \<noteq> time_source ?ag (time_reads ?ag + 1)"
    by (simp add: example_agent_def)
  have start: "calls ?ag = 0" "sleeps ?ag = []"
    by (simp_all add: example_agent_def)
  show ?thesis
    using step_recovery_once [OF first] second hook clock start by auto
qed

text \<open>
  Claim C8 (after a step's first execution raises, one recovery is attempted; if the retry
  succeeds the step is marked \<^verbatim>\<open>recovered: True\<close> and the task proceeds to overall
  \<^verbatim>\<open>success = True\<close>; if it fails the task aborts). The recovery itself is as
  claimed, by the lemma above. The task does not always proceed to success:
  \<^verbatim>\<open>execute_with_monitoring\<close> measures the duration of a recovered step from its
  start to the failure of its first execution, and \<^verbatim>\<open>calculate_performance_impact\<close>
  divides \<^verbatim>\<open>300\<close> by the sum of the durations. In the same file
  \<^verbatim>\<open>update_performance_metrics\<close> divides by the task count only after testing that
  it is positive; here there is no such test. The theorem runs \<^verbatim>\<open>process_task\<close> on
  an agent whose capability raises on its first call only and whose clock gives the same
  reading at the start of the step and at its failure: the step is recovered
  (\<^verbatim>\<open>success: True, recovered: True\<close>, one successful step, total duration zero)
  after two calls and one sleep of five seconds, and the task returns
  \<^verbatim>\<open>success: False\<close> with the error \<^verbatim>\<open>ZeroDivisionError\<close>.
\<close>

theorem recovered_task_fails_on_zero_duration:
  "(let (r, ag', events) = process_task coarse_clock_agent (n8n_task named_request)
    in (success r, error r, execution_time r, calls ag', sleeps ag'))
     = (False, Some ZeroDivisionError, Some 5, 2, [5])
   \<and> (case fst (execute_with_monitoring coarse_clock_agent
                   (create_execution_plan coarse_clock_agent (n8n_task named_request))) of
         Inl e \<Rightarrow> False
       | Inr x \<Rightarrow>
           map (\<lambda>s. (sr_step_id s, sr_success s, sr_result s, sr_recovered s, sr_duration s))
             (step_results x) = [(1, True, Some (PStr ''done''), Some True, 0)]
         \<and> steps_successful x = 1
         \<and> total_duration x = 0)"
  by code_simp

section \<open>Performance metrics of an agent\<close>

text \<open>
  Claim C9. Start from an agent with the metrics of a new agent and make \<open>N\<close> calls of
  \<^verbatim>\<open>process_task\<close>, on any tasks and with any outcomes. Afterwards
  \<^verbatim>\<open>tasks_completed + tasks_failed = N\<close>, \<^verbatim>\<open>tasks_completed\<close> is the number of
  calls that returned \<^verbatim>\<open>success: True\<close>, \<^verbatim>\<open>total_execution_time\<close> is the sum of
  the \<^verbatim>\<open>execution_time\<close> entries of the \<open>N\<close> returned dicts, and for \<open>N > 0\<close>
  \<^verbatim>\<open>success_rate = tasks_completed / N\<close> and
  \<^verbatim>\<open>average_task_time = total_execution_time / N\<close>. Since \<open>N\<close> is arbitrary this
  holds after every prefix of a run: no call resets a counter. Times are rationals here;
  the rounding of floating point addition and division is not modelled.
\<close>

theorem metrics_after_process_tasks:
  assumes fresh: "performance_metrics ag = initial_metrics"
  shows "let rs = fst (process_tasks ag ts);
             m = performance_metrics (snd (process_tasks ag ts));
             n = length ts
         in tasks_completed m + tasks_failed m = n
          \<and> tasks_completed m = length (filter success rs)
          \<and> total_execution_time m = sum_list (map elapsed_of rs)
          \<and> (n > 0 \<longrightarrow>
               success_rate m = of_nat (tasks_completed m) / of_nat n
             \<and> average_task_time m = total_execution_time m / of_nat n)"
proof -
  let ?rs = "fst (process_tasks ag ts)"
  let ?m = "performance_metrics (snd (process_tasks ag ts))"
  have c: "tasks_completed ?m = length (filter success ?rs)"
    and f: "tasks_failed ?m = length (filter (\<lambda>r. \<not> success r) ?rs)"
    and t: "total_execution_time ?m = sum_list (map elapsed_of ?rs)"
    using process_tasks_counts [of ag ts] fresh by (simp_all add: initial_metrics_def)
  have n: "tasks_completed ?m + tasks_failed ?m = length ts"
    using c f filter_complement_length [of success ?rs] process_tasks_length [of ag ts] by simp
  have d: "length ts > 0 \<Longrightarrow> derived_metrics_agree ?m"
    using process_tasks_agree [of ts ag] by simp
  show ?thesis
    using c t n d by (auto simp: Let_def derived_metrics_agree_def)
qed

text \<open>Two tasks on an agent whose capability raises on its first two calls: the first
  task fails, the second succeeds, and the success rate is one half.\<close>

theorem metrics_after_process_tasks_witness:
  "map success (fst (process_tasks
      (example_agent ''n8n_deployment'' ''N8N Deployment Agent'' raises_twice)
      [n8n_task named_request, n8n_task named_request])) = [False, True]
   \<and> tasks_completed (performance_metrics (snd (process_tasks
      (example_agent ''n8n_deployment'' ''N8N Deployment Agent'' raises_twice)
      [n8n_task named_request, n8n_task named_request]))) = 1
   \<and> tasks_failed (performance_metrics (snd (process_tasks
      (example_agent ''n8n_deployment'' ''N8N Deployment Agent'' raises_twice)
      [n8n_task named_request, n8n_task named_request]))) = 1
   \<and> success_rate (performance_metrics (snd (process_tasks
      (example_agent ''n8n_deployment'' ''N8N Deployment Agent'' raises_twice)
      [n8n_task named_request, n8n_task named_request]))) = 1 / 2"
proof -
  let ?ag = "example_agent ''n8n_deployment'' ''N8N Deployment Agent'' raises_twice"
  let ?ts = "[n8n_task named_request, n8n_task named_request]"
  define rs where "rs = fst (process_tasks ?ag ?ts)"
  define m where "m = performance_metrics (snd (process_tasks ?ag ?ts))"
  have fresh: "performance_metrics ?ag = initial_metrics"
    by (simp add: example_agent_def)
  have flags: "map success rs = [False, True]"
    unfolding rs_def by code_simp
  have one: "length (filter success rs) = 1"
    using flags count_by_flags [of success rs] by simp
  have general: "tasks_completed m + tasks_failed m = length ?ts
      \<and> tasks_completed m = length (filter success rs)
      \<and> (length ?ts > 0 \<longrightarrow> success_rate m = of_nat (tasks_completed m) / of_nat (length ?ts))"
    using metrics_after_process_tasks [OF fresh, of ?ts]
    unfolding rs_def m_def Let_def by blast
  have "map success rs = [False, True] \<and> tasks_completed m = 1 \<and> tasks_failed m = 1
      \<and> success_rate m = 1 / 2"
    using general flags one by simp
  then show ?thesis unfolding rs_def m_def .
qed

section \<open>A plan without service tasks\<close>

text \<open>
  Claim C10. Let the request carry no key \<^verbatim>\<open>services\<close>, or the empty list under it.
  Then \<^verbatim>\<open>plan_services_phase\<close> plans the parallel Services phase with no task,
  \<^verbatim>\<open>create_master_execution_plan\<close> returns no plan but raises, the exception being
  the \<^verbatim>\<open>ValueError\<close> of \<^verbatim>\<open>max\<close> on an empty sequence in
  \<^verbatim>\<open>estimate_total_duration\<close> whenever \<^verbatim>\<open>len\<close> of the \<^verbatim>\<open>configuration\<close> entry
  is defined (otherwise \<^verbatim>\<open>determine_optimal_strategy\<close> raises first), and
  \<^verbatim>\<open>deploy_infrastructure\<close> returns \<^verbatim>\<open>success = False\<close>, from every orchestrator
  state.
\<close>

theorem empty_services_no_plan:
  assumes none: "map_of request ''services'' = None \<or> map_of request ''services'' = Some (PList [])"
  shows "(\<exists>pc. plan_services_phase request = Inr pc \<and> tasks pc = [] \<and> parallel_execution pc)
       \<and> (\<exists>e. create_master_execution_plan request = Inl e)
       \<and> ((\<exists>n. py_len (py_get_default request ''configuration'' (PDict [])) = Inr n)
            \<longrightarrow> create_master_execution_plan request = Inl MaxOfEmptySequence)
       \<and> \<not> dr_success (fst (deploy_infrastructure orch did request))"
proof -
  have a: "\<exists>pc. plan_services_phase request = Inr pc \<and> tasks pc = [] \<and> parallel_execution pc"
    by (simp add: plan_services_phase_empty [OF none])
  have b: "\<exists>e. create_master_execution_plan request = Inl e"
    by (simp add: create_plan_empty_services [OF none] split: sum.splits)
  have c: "(\<exists>n. py_len (py_get_default request ''configuration'' (PDict [])) = Inr n)
            \<longrightarrow> create_master_execution_plan request = Inl MaxOfEmptySequence"
    using strategy_defined [OF none] by (auto simp: create_plan_empty_services [OF none])
  have d: "\<not> dr_success (fst (deploy_infrastructure orch did request))"
    using b deploy_attempt_without_plan deploy_fails_when_attempt_fails by blast
  show ?thesis using a b c d by blast
qed

text \<open>A valid request without the key \<^verbatim>\<open>services\<close>, deployed by a team in which
  every agent works.\<close>

theorem empty_services_no_plan_witness:
  "create_master_execution_plan no_services_request = Inl MaxOfEmptySequence
   \<and> \<not> dr_success (fst (deploy_infrastructure (example_team returns_done returns_done)
                          ''dep-1'' no_services_request))"
proof -
  have none: "map_of no_services_request ''services'' = None
            \<or> map_of no_services_request ''services'' = Some (PList [])"
    by (simp add: no_services_request_def)
  have len: "\<exists>n. py_len (py_get_default no_services_request ''configuration'' (PDict [])) = Inr n"
    by (simp add: no_services_request_def py_get_default_def)
  show ?thesis
    using empty_services_no_plan [OF none, of "example_team returns_done returns_done" "''dep-1''"]
      len
    by blast
qed

end
